theory Spec2Isabelle
  imports Complex_Main "HOL-Library.Multiset" "HOL-Library.Log_Nat"
begin

section \<open>JavaScript numbers\<close>

text \<open>
  A TypeScript \<open>number\<close> is an IEEE double: a finite value, held as the rational it
  denotes, or one of the three special values. The two zeros are identified; every
  divisor that can be zero in the modelled code is the result of a subtraction, whose
  zero is the positive one. Sums, products and quotients are rounded to the nearest
  double, ties to the even significand, and overflow to an infinity.
\<close>

datatype jsnum = Fin rat | PInf | NInf | NaN

text \<open>The power of two with an integer exponent.\<close>

definition pow2 :: "int \<Rightarrow> rat" where
  "pow2 k = (if 0 \<le> k then 2 ^ nat k else 1 / 2 ^ nat (- k))"

text \<open>
  The binary exponent of a positive rational \<open>a\<close>: the \<open>k\<close> with \<open>2^k \<le> a < 2^(k+1)\<close>.
  It is the difference of the bit lengths of numerator and denominator, or one less.
\<close>

definition ilog2 :: "rat \<Rightarrow> int" where
  "ilog2 a =
     (case quotient_of a of
        (n, d) \<Rightarrow> let k = bitlen n - bitlen d in if pow2 k \<le> a then k else k - 1)"

definition roundHalfEven :: "rat \<Rightarrow> int" where
  "roundHalfEven t =
     (let f = \<lfloor>t\<rfloor>; r = t - of_int f
      in if r < 1 / 2 then f
         else if 1 / 2 < r then f + 1
         else if even f then f else f + 1)"

text \<open>
  Rounding a rational to a double. The spacing of the doubles around \<open>x\<close> is
  \<open>2^(e - 52)\<close> for the exponent \<open>e\<close> of \<open>x\<close>, and \<open>2^(-1074)\<close> below the normal range;
  a rounded magnitude of \<open>2^1024\<close> or more, written out here, is an infinity.
\<close>

definition fl :: "rat \<Rightarrow> jsnum" where
  "fl x =
     (if x = 0 then Fin 0
      else
        let a = \<bar>x\<bar>;
            q = pow2 (max (ilog2 a) (- 1022) - 52);
            y = of_int (roundHalfEven (a / q)) * q
        in if 179769313486231590772930519078902473361797697894230657273430081157732675805500963132708477322407536021120113879871393357658789768814416622492847430639474124377767893424865485276302219601246094119453082952085005768838150682342462881473913110540827237163350510684586298239947245938479716304835356329624224137216 \<le> y
           then (if 0 < x then PInf else NInf)
           else Fin (if 0 < x then y else - y))"

fun js_neg :: "jsnum \<Rightarrow> jsnum" where
  "js_neg (Fin a) = Fin (- a)"
| "js_neg PInf = NInf"
| "js_neg NInf = PInf"
| "js_neg NaN = NaN"

fun js_add :: "jsnum \<Rightarrow> jsnum \<Rightarrow> jsnum" where
  "js_add NaN _ = NaN"
| "js_add _ NaN = NaN"
| "js_add (Fin a) (Fin b) = fl (a + b)"
| "js_add (Fin a) PInf = PInf"
| "js_add (Fin a) NInf = NInf"
| "js_add PInf (Fin b) = PInf"
| "js_add NInf (Fin b) = NInf"
| "js_add PInf PInf = PInf"
| "js_add NInf NInf = NInf"
| "js_add PInf NInf = NaN"
| "js_add NInf PInf = NaN"

definition js_sub :: "jsnum \<Rightarrow> jsnum \<Rightarrow> jsnum" where
  "js_sub a b = js_add a (js_neg b)"

fun js_mul :: "jsnum \<Rightarrow> jsnum \<Rightarrow> jsnum" where
  "js_mul NaN _ = NaN"
| "js_mul _ NaN = NaN"
| "js_mul (Fin a) (Fin b) = fl (a * b)"
| "js_mul (Fin a) PInf = (if a = 0 then NaN else if 0 < a then PInf else NInf)"
| "js_mul (Fin a) NInf = (if a = 0 then NaN else if 0 < a then NInf else PInf)"
| "js_mul PInf (Fin b) = (if b = 0 then NaN else if 0 < b then PInf else NInf)"
| "js_mul NInf (Fin b) = (if b = 0 then NaN else if 0 < b then NInf else PInf)"
| "js_mul PInf PInf = PInf"
| "js_mul NInf NInf = PInf"
| "js_mul PInf NInf = NInf"
| "js_mul NInf PInf = NInf"

fun js_div :: "jsnum \<Rightarrow> jsnum \<Rightarrow> jsnum" where
  "js_div NaN _ = NaN"
| "js_div _ NaN = NaN"
| "js_div (Fin a) (Fin b) =
     (if b = 0 then (if a = 0 then NaN else if 0 < a then PInf else NInf)
      else fl (a / b))"
| "js_div (Fin a) PInf = Fin 0"
| "js_div (Fin a) NInf = Fin 0"
| "js_div PInf (Fin b) = (if 0 \<le> b then PInf else NInf)"
| "js_div NInf (Fin b) = (if 0 \<le> b then NInf else PInf)"
| "js_div PInf PInf = NaN"
| "js_div NInf NInf = NaN"
| "js_div PInf NInf = NaN"
| "js_div NInf PInf = NaN"

text \<open>The comparison \<open>a < b\<close>; every comparison with \<open>NaN\<close> is false.\<close>

fun js_lt :: "jsnum \<Rightarrow> jsnum \<Rightarrow> bool" where
  "js_lt NaN _ = False"
| "js_lt _ NaN = False"
| "js_lt (Fin a) (Fin b) = (a < b)"
| "js_lt (Fin a) PInf = True"
| "js_lt (Fin a) NInf = False"
| "js_lt PInf _ = False"
| "js_lt NInf (Fin b) = True"
| "js_lt NInf PInf = True"
| "js_lt NInf NInf = False"

text \<open>Strict equality \<open>a === b\<close> on numbers.\<close>

definition js_eq :: "jsnum \<Rightarrow> jsnum \<Rightarrow> bool" where
  "js_eq a b = (a \<noteq> NaN \<and> a = b)"

definition js_gt :: "jsnum \<Rightarrow> jsnum \<Rightarrow> bool" where
  "js_gt a b = js_lt b a"

definition js_le :: "jsnum \<Rightarrow> jsnum \<Rightarrow> bool" where
  "js_le a b = (js_lt a b \<or> js_eq a b)"

definition js_ge :: "jsnum \<Rightarrow> jsnum \<Rightarrow> bool" where
  "js_ge a b = js_le b a"

text \<open>\<open>Math.max(a, b)\<close>.\<close>

definition js_max :: "jsnum \<Rightarrow> jsnum \<Rightarrow> jsnum" where
  "js_max a b = (if a = NaN \<or> b = NaN then NaN else if js_lt a b then b else a)"

text \<open>Truthiness of a number: \<open>0\<close> and \<open>NaN\<close> are falsy.\<close>

definition js_truthy :: "jsnum \<Rightarrow> bool" where
  "js_truthy a = (a \<noteq> Fin 0 \<and> a \<noteq> NaN)"

text \<open>\<open>a || b\<close> on numbers.\<close>

definition js_or :: "jsnum \<Rightarrow> jsnum \<Rightarrow> jsnum" where
  "js_or a b = (if js_truthy a then a else b)"

text \<open>\<open>Number.isInteger(a)\<close>.\<close>

fun js_isInteger :: "jsnum \<Rightarrow> bool" where
  "js_isInteger (Fin a) = (of_int \<lfloor>a\<rfloor> = a)"
| "js_isInteger _ = False"



section \<open>Data model (models.ts)\<close>

text \<open>
  A \<open>Date\<close> is its time value, the milliseconds since the epoch, as an integer (invalid
  dates are not modelled). Field names shared by several interfaces carry a suffix.
  The interface \<open>Set\<close> is named \<open>WorkoutSet\<close> here.
\<close>

record WorkoutSet =
  reps :: jsnum
  weight :: jsnum
  completed :: bool
  restTime :: jsnum

record WorkoutExercise =
  exerciseId :: string
  sets :: "WorkoutSet list"
  restTime_e :: jsnum
  notes_e :: string

record Workout =
  id_w :: string
  name_w :: string
  startTime :: int
  endTime :: "int option"
  exercises :: "WorkoutExercise list"
  notes_w :: string

record Exercise =
  id_x :: string
  name_x :: string
  muscleGroups :: "string list"
  equipment :: "string list"
  category :: string
  instructions :: string
  imageUrl :: string

record SetInput =
  reps_i :: jsnum
  weight_i :: jsnum
  completed_i :: "bool option"

record TimeRange =
  startDate :: int
  endDate :: int

record ProgressMetrics =
  exerciseId_m :: string
  exerciseName_m :: string
  oneRepMax_m :: jsnum
  totalVolume :: jsnum
  averageWeight :: jsnum
  totalSets :: jsnum
  totalReps :: jsnum
  progressPercentage :: jsnum


record PersonalRecord =
  exerciseId_r :: string
  exerciseName_r :: string
  maxWeight :: jsnum
  maxReps :: jsnum
  maxVolume :: jsnum
  oneRepMax_r :: jsnum
  achievedDate :: int

record StrengthPoint =
  date :: int
  weight_p :: jsnum
  oneRepMax_p :: jsnum
  volume :: jsnum

datatype TrendDirection = up | down | stable

record StrengthProgression =
  exerciseId_s :: string
  exerciseName_s :: string
  dataPoints :: "StrengthPoint list"
  trendDirection :: TrendDirection
  progressRate :: jsnum

text \<open>One day, in milliseconds: \<open>1000 * 60 * 60 * 24\<close>.\<close>

definition msPerDay :: int where
  "msPerDay = 1000 * 60 * 60 * 24"

section \<open>Set model (models/Set.ts)\<close>

text \<open>
  \<open>SetValidator.validate\<close> takes a \<open>Partial<Set>\<close>: every field may be absent. The
  \<open>typeof\<close> tests fail exactly on an absent field, since a present field is a number
  (a boolean for \<open>completed\<close>) by its type, so the test on \<open>completed\<close>, which
  only rejects a present value that is not a boolean, never adds a message. The result
  is the list of error messages; \<open>isValid\<close> is its emptiness.
\<close>

record PartialSet =
  reps_o :: "jsnum option"
  weight_o :: "jsnum option"
  completed_o :: "bool option"
  restTime_o :: "jsnum option"

definition validate_errors :: "PartialSet \<Rightarrow> string list" where
  "validate_errors s =
     (if (case reps_o s of None \<Rightarrow> True
          | Some r \<Rightarrow> if js_le r (Fin 0) then True else \<not> js_isInteger r)
      then [''Reps must be a positive integer''] else []) @
     (if (case weight_o s of None \<Rightarrow> True | Some w \<Rightarrow> js_lt w (Fin 0))
      then [''Weight must be a non-negative number''] else []) @
     (if (case restTime_o s of None \<Rightarrow> True | Some t \<Rightarrow> js_lt t (Fin 0))
      then [''Rest time must be a non-negative number''] else []) @
     (if (case reps_o s of None \<Rightarrow> False
          | Some r \<Rightarrow> js_truthy r \<and> js_gt r (Fin 1000))
      then [''Reps must be less than 1000''] else []) @
     (if (case weight_o s of None \<Rightarrow> False
          | Some w \<Rightarrow> js_truthy w \<and> js_gt w (Fin 10000))
      then [''Weight must be less than 10000 kg/lbs''] else []) @
     (if (case restTime_o s of None \<Rightarrow> False
          | Some t \<Rightarrow> js_truthy t \<and> js_gt t (Fin 7200))
      then [''Rest time must be less than 2 hours (7200 seconds)''] else [])"

definition validate_isValid :: "PartialSet \<Rightarrow> bool" where
  "validate_isValid s = (length (validate_errors s) = 0)"

text \<open>\<open>SetModel.getEstimatedOneRepMax\<close>, on the set data the model holds.\<close>

definition getEstimatedOneRepMax :: "WorkoutSet \<Rightarrow> jsnum" where
  "getEstimatedOneRepMax s =
     (if js_eq (reps s) (Fin 1) then weight s
      else if js_gt (reps s) (Fin 36) then weight s
      else js_mul (weight s) (js_div (Fin 36) (js_sub (Fin 37) (reps s))))"


section \<open>Workout store (workoutStore.ts)\<close>

text \<open>
  The store's state, and the two keys of \<open>AsyncStorage\<close> it writes. A stored value is
  the workout itself rather than its JSON text. A command runs on the pair of both.
  Each \<open>AsyncStorage\<close> call of a command takes a flag telling whether its promise
  resolves; a rejected call leaves the storage as it was.
\<close>

record WorkoutStore =
  currentWorkout :: "Workout option"
  workoutHistory :: "Workout list"
  isLoading :: bool
  error :: "string option"

record AsyncStorage =
  stored_currentWorkout :: "Workout option"
  stored_workoutHistory :: "Workout list option"

type_synonym app = "WorkoutStore \<times> AsyncStorage"

text \<open>What a \<open>try\<close> block throws: an \<open>Error\<close> with its message, or a storage rejection.\<close>

datatype thrown = Error string | StorageRejected

text \<open>
  \<open>startWorkout\<close>. The generated id, the generated name and the clock reading of
  \<open>new Date()\<close> are parameters. The \<open>try\<close> block returns the state it leaves and what it
  threw; the command adds the handler and the \<open>finally\<close> block.
\<close>

definition startWorkout_try ::
  "string \<Rightarrow> string \<Rightarrow> int \<Rightarrow> string option \<Rightarrow> bool \<Rightarrow> app \<Rightarrow> app \<times> thrown option" where
  "startWorkout_try newId generatedName now name ok = (\<lambda>(s, d).
     let s1 = s\<lparr>isLoading := True, error := None\<rparr>;
         newWorkout = \<lparr>id_w = newId,
                       name_w = (case name of None \<Rightarrow> generatedName
                                 | Some n \<Rightarrow> if n = [] then generatedName else n),
                       startTime = now, endTime = None, exercises = [], notes_w = []\<rparr>;
         s2 = s1\<lparr>currentWorkout := Some newWorkout\<rparr>
     in if ok then ((s2, d\<lparr>stored_currentWorkout := Some newWorkout\<rparr>), None)
        else ((s2, d), Some StorageRejected))"

definition startWorkout ::
  "string \<Rightarrow> string \<Rightarrow> int \<Rightarrow> string option \<Rightarrow> bool \<Rightarrow> app \<Rightarrow> app" where
  "startWorkout newId generatedName now name ok a =
     (case startWorkout_try newId generatedName now name ok a of
        ((s, d), None) \<Rightarrow> (s\<lparr>isLoading := False\<rparr>, d)
      | ((s, d), Some e) \<Rightarrow>
          (s\<lparr>error := Some ''Failed to start workout'', isLoading := False\<rparr>, d))"

definition addExerciseToWorkout_try :: "string \<Rightarrow> bool \<Rightarrow> app \<Rightarrow> app \<times> thrown option" where
  "addExerciseToWorkout_try eid ok = (\<lambda>(s, d).
     case currentWorkout s of
       None \<Rightarrow> ((s, d), Some (Error ''No active workout''))
     | Some cw \<Rightarrow>
        (case find (\<lambda>e. exerciseId e = eid) (exercises cw) of
           Some existingExercise \<Rightarrow>
             ((s\<lparr>error := Some ''Exercise already added to workout''\<rparr>, d), None)
         | None \<Rightarrow>
             let newExercise = \<lparr>exerciseId = eid, sets = [], restTime_e = Fin 120,
                                notes_e = []\<rparr>;
                 updatedWorkout = cw\<lparr>exercises := exercises cw @ [newExercise]\<rparr>;
                 s1 = s\<lparr>currentWorkout := Some updatedWorkout\<rparr>
             in if ok then ((s1, d\<lparr>stored_currentWorkout := Some updatedWorkout\<rparr>), None)
                else ((s1, d), Some StorageRejected)))"

definition addExerciseToWorkout :: "string \<Rightarrow> bool \<Rightarrow> app \<Rightarrow> app" where
  "addExerciseToWorkout eid ok a =
     (case addExerciseToWorkout_try eid ok a of
        ((s, d), None) \<Rightarrow> (s, d)
      | ((s, d), Some e) \<Rightarrow> (s\<lparr>error := Some ''Failed to add exercise to workout''\<rparr>, d))"

text \<open>\<open>findIndex\<close>: the first index whose element satisfies the test, or nothing for \<open>-1\<close>.\<close>

fun findIndex :: "('a \<Rightarrow> bool) \<Rightarrow> 'a list \<Rightarrow> nat option" where
  "findIndex P [] = None"
| "findIndex P (x # xs) =
     (if P x then Some 0 else map_option Suc (findIndex P xs))"

definition addSetToExercise_try ::
  "string \<Rightarrow> SetInput \<Rightarrow> bool \<Rightarrow> app \<Rightarrow> app \<times> thrown option" where
  "addSetToExercise_try eid setInput ok = (\<lambda>(s, d).
     case currentWorkout s of
       None \<Rightarrow> ((s, d), Some (Error ''No active workout''))
     | Some cw \<Rightarrow>
        (case findIndex (\<lambda>e. exerciseId e = eid) (exercises cw) of
           None \<Rightarrow> ((s, d), Some (Error ''Exercise not found in workout''))
         | Some exerciseIndex \<Rightarrow>
             let newSet = \<lparr>reps = reps_i setInput, weight = weight_i setInput,
                           completed = (case completed_i setInput of None \<Rightarrow> True
                                        | Some c \<Rightarrow> c),
                           restTime = Fin 0\<rparr>;
                 old = exercises cw ! exerciseIndex;
                 updatedExercises =
                   (exercises cw)[exerciseIndex := old\<lparr>sets := sets old @ [newSet]\<rparr>];
                 updatedWorkout = cw\<lparr>exercises := updatedExercises\<rparr>;
                 s1 = s\<lparr>currentWorkout := Some updatedWorkout\<rparr>
             in if ok then ((s1, d\<lparr>stored_currentWorkout := Some updatedWorkout\<rparr>), None)
                else ((s1, d), Some StorageRejected)))"

definition addSetToExercise :: "string \<Rightarrow> SetInput \<Rightarrow> bool \<Rightarrow> app \<Rightarrow> app" where
  "addSetToExercise eid setInput ok a =
     (case addSetToExercise_try eid setInput ok a of
        ((s, d), None) \<Rightarrow> (s, d)
      | ((s, d), Some e) \<Rightarrow> (s\<lparr>error := Some ''Failed to add set to exercise''\<rparr>, d))"

text \<open>
  \<open>completeWorkout\<close>. \<open>Promise.all\<close> starts the removal of the current workout and the
  write of the history together; each takes effect when it resolves, and the
  combined promise rejects when either does.
\<close>

definition completeWorkout_try :: "int \<Rightarrow> bool \<Rightarrow> bool \<Rightarrow> app \<Rightarrow> app \<times> thrown option" where
  "completeWorkout_try now okRemove okSet = (\<lambda>(s, d).
     let s1 = s\<lparr>isLoading := True, error := None\<rparr>
     in case currentWorkout s1 of
          None \<Rightarrow> ((s1, d), Some (Error ''No active workout to complete''))
        | Some cw \<Rightarrow>
            if length (exercises cw) = 0
            then ((s1\<lparr>error := Some ''Cannot complete workout with no exercises''\<rparr>, d), None)
            else
              let completedWorkout = cw\<lparr>endTime := Some now\<rparr>;
                  updatedHistory = completedWorkout # workoutHistory s1;
                  s2 = s1\<lparr>currentWorkout := None, workoutHistory := updatedHistory\<rparr>;
                  d1 = (if okRemove then d\<lparr>stored_currentWorkout := None\<rparr> else d);
                  d2 = (if okSet then d1\<lparr>stored_workoutHistory := Some updatedHistory\<rparr>
                        else d1)
              in ((s2, d2), if okRemove \<and> okSet then None else Some StorageRejected))"

definition completeWorkout :: "int \<Rightarrow> bool \<Rightarrow> bool \<Rightarrow> app \<Rightarrow> app" where
  "completeWorkout now okRemove okSet a =
     (case completeWorkout_try now okRemove okSet a of
        ((s, d), None) \<Rightarrow> (s\<lparr>isLoading := False\<rparr>, d)
      | ((s, d), Some e) \<Rightarrow>
          (s\<lparr>error := Some ''Failed to complete workout'', isLoading := False\<rparr>, d))"


section \<open>Workout service (WorkoutService.ts)\<close>

text \<open>
  \<open>Array.prototype.slice\<close> with a start and an optional end; a negative index counts
  from the end of the array.
\<close>

definition js_slice :: "'a list \<Rightarrow> int \<Rightarrow> int option \<Rightarrow> 'a list" where
  "js_slice xs start fin =
     (let len = int (length xs);
          k = (if start < 0 then max (len + start) 0 else min start len);
          final = (case fin of None \<Rightarrow> len
                   | Some e \<Rightarrow> if e < 0 then max (len + e) 0 else min e len)
      in take (nat (final - k)) (drop (nat k) xs))"

text \<open>
  \<open>getWorkoutHistory\<close> reads the history key (absent: the empty list), sorts by start
  time, most recent first, and cuts the page out. \<open>Array.prototype.sort\<close> is stable,
  as \<open>sort_key\<close> is. The limit and the offset are absent or integers.
\<close>

definition getWorkoutHistory ::
  "Workout list option \<Rightarrow> int option \<Rightarrow> int option \<Rightarrow> Workout list" where
  "getWorkoutHistory historyData limit offset =
     (case historyData of
        None \<Rightarrow> []
      | Some stored \<Rightarrow>
          let history = sort_key (\<lambda>w. - startTime w) stored;
              start = (case offset of None \<Rightarrow> 0 | Some off \<Rightarrow> off);
              fin = (case limit of None \<Rightarrow> None
                     | Some l \<Rightarrow> if l = 0 then None else Some (start + l))
          in js_slice history start fin)"

section \<open>Progress service (ProgressService.ts)\<close>

text \<open>
  The service reads the history through \<open>getWorkoutHistory\<close> and the catalog through
  \<open>getExerciseById\<close>; the stored history and the catalog lookup are parameters. A
  function that can throw returns the message of the error on the left.
\<close>

definition getWorkoutsInTimeRange :: "Workout list option \<Rightarrow> TimeRange \<Rightarrow> Workout list" where
  "getWorkoutsInTimeRange historyData timeRange =
     filter (\<lambda>workout. startDate timeRange \<le> startTime workout \<and>
                        startTime workout \<le> endDate timeRange \<and>
                        endTime workout \<noteq> None)
       (getWorkoutHistory historyData None None)"

text \<open>
  The one-rep-max expression the service writes out in three places:
  \<open>set.reps === 1 ? set.weight : set.weight * (36 / (37 - set.reps))\<close>.
\<close>

definition brzycki :: "WorkoutSet \<Rightarrow> jsnum" where
  "brzycki s =
     (if js_eq (reps s) (Fin 1) then weight s
      else js_mul (weight s) (js_div (Fin 36) (js_sub (Fin 37) (reps s))))"

text \<open>\<open>Math.max(...xs)\<close>; of no argument it is \<open>-Infinity\<close>.\<close>

definition js_max_list :: "jsnum list \<Rightarrow> jsnum" where
  "js_max_list xs = fold (\<lambda>x m. js_max m x) xs NInf"

definition calculateProgressPercentage :: "Workout list \<Rightarrow> string \<Rightarrow> jsnum" where
  "calculateProgressPercentage workouts eid =
     (if length workouts < 2 then Fin 0
      else
        let sortedWorkouts = sort_key startTime workouts;
            firstWorkout = hd sortedWorkouts;
            lastWorkout = last sortedWorkouts
        in case (find (\<lambda>e. exerciseId e = eid) (exercises firstWorkout),
                 find (\<lambda>e. exerciseId e = eid) (exercises lastWorkout)) of
             (Some firstExercise, Some lastExercise) \<Rightarrow>
               let firstMaxWeight = js_max_list (map weight (sets firstExercise));
                   lastMaxWeight = js_max_list (map weight (sets lastExercise))
               in if js_gt firstMaxWeight (Fin 0)
                  then js_mul (js_div (js_sub lastMaxWeight firstMaxWeight) firstMaxWeight)
                         (Fin 100)
                  else Fin 0
           | _ \<Rightarrow> Fin 0)"

text \<open>
  The running totals of \<open>getExerciseProgress\<close>, in the order \<open>totalVolume\<close>,
  \<open>totalSets\<close>, \<open>totalReps\<close>, \<open>totalWeight\<close>, \<open>maxOneRepMax\<close>.
\<close>

type_synonym totals = "jsnum \<times> jsnum \<times> jsnum \<times> jsnum \<times> jsnum"

definition addSetTotals :: "WorkoutSet \<Rightarrow> totals \<Rightarrow> totals" where
  "addSetTotals s = (\<lambda>(totalVolume, totalSets, totalReps, totalWeight, maxOneRepMax).
     (js_add totalVolume (js_mul (reps s) (weight s)),
      js_add totalSets (Fin 1),
      js_add totalReps (reps s),
      js_add totalWeight (weight s),
      js_max maxOneRepMax (brzycki s)))"

definition addWorkoutTotals :: "string \<Rightarrow> Workout \<Rightarrow> totals \<Rightarrow> totals" where
  "addWorkoutTotals eid workout acc =
     (case find (\<lambda>e. exerciseId e = eid) (exercises workout) of
        None \<Rightarrow> acc
      | Some exerciseData \<Rightarrow> fold addSetTotals (sets exerciseData) acc)"

definition getExerciseProgress ::
  "(string \<Rightarrow> Exercise option) \<Rightarrow> Workout list option \<Rightarrow> string \<Rightarrow> TimeRange
     \<Rightarrow> string + ProgressMetrics" where
  "getExerciseProgress lookup historyData eid timeRange =
     (let workouts = getWorkoutsInTimeRange historyData timeRange
      in case lookup eid of
           None \<Rightarrow> Inl (''Failed to get exercise progress: '' @
                         ''Exercise with ID '' @ eid @ '' not found'')
         | Some exercise \<Rightarrow>
             let exerciseWorkouts =
                   filter (\<lambda>workout. list_ex (\<lambda>e. exerciseId e = eid) (exercises workout))
                     workouts
             in if length exerciseWorkouts = 0
                then Inr \<lparr>exerciseId_m = eid, exerciseName_m = name_x exercise,
                          oneRepMax_m = Fin 0, totalVolume = Fin 0, averageWeight = Fin 0,
                          totalSets = Fin 0, totalReps = Fin 0, progressPercentage = Fin 0\<rparr>
                else
                  (case fold (addWorkoutTotals eid) exerciseWorkouts
                          (Fin 0, Fin 0, Fin 0, Fin 0, Fin 0) of
                     (totalVolume', totalSets', totalReps', totalWeight, maxOneRepMax) \<Rightarrow>
                       Inr \<lparr>exerciseId_m = eid, exerciseName_m = name_x exercise,
                            oneRepMax_m = maxOneRepMax, totalVolume = totalVolume',
                            averageWeight = (if js_gt totalSets' (Fin 0)
                                             then js_div totalWeight totalSets' else Fin 0),
                            totalSets = totalSets', totalReps = totalReps',
                            progressPercentage =
                              calculateProgressPercentage exerciseWorkouts eid\<rparr>))"

text \<open>
  \<open>calculateStreaks\<close>. The loop walks the dates after the first with the previous date
  at hand; it carries \<open>longestStreak\<close> and \<open>tempStreak\<close>. The reading of the clock,
  \<open>new Date()\<close>, is a parameter. The result is the pair of \<open>longestStreak\<close> and
  \<open>currentStreak\<close>. The two quotients by the milliseconds of a day are only compared
  with seven, and rounding the quotient of an integer of milliseconds does not change
  that comparison; they are computed exactly.
\<close>

fun streakLoop :: "int \<Rightarrow> int list \<Rightarrow> nat \<Rightarrow> nat \<Rightarrow> nat \<times> nat" where
  "streakLoop prev [] longest temp = (longest, temp)"
| "streakLoop prev (d # ds) longest temp =
     (let daysDiff = (of_int \<bar>d - prev\<bar> :: rat) / of_int msPerDay
      in if daysDiff \<le> 7 then streakLoop d ds longest (temp + 1)
         else streakLoop d ds (max longest temp) 1)"

fun calculateStreaks :: "int list \<Rightarrow> int \<Rightarrow> nat \<times> nat" where
  "calculateStreaks [] now = (0, 0)"
| "calculateStreaks (d # ds) now =
     (case streakLoop d ds 1 1 of
        (longest, tempStreak) \<Rightarrow>
          let longest' = max longest tempStreak;
              mostRecentWorkout = last (d # ds);
              daysSinceLastWorkout =
                (of_int (now - mostRecentWorkout) :: rat) / of_int msPerDay
          in (longest', if daysSinceLastWorkout \<le> 7 then tempStreak else 0))"



text \<open>
  \<open>getPersonalRecords\<close>. The \<open>Map\<close> from exercise id to record is an association list
  in insertion order: \<open>set\<close> on a present key replaces the value in place, on a new key
  it appends. \<open>currentRecord\<close> is read once for an exercise entry, before the loop over
  its sets.
\<close>

fun map_set :: "'k \<Rightarrow> 'v \<Rightarrow> ('k \<times> 'v) list \<Rightarrow> ('k \<times> 'v) list" where
  "map_set k v [] = [(k, v)]"
| "map_set k v (p # m) = (if fst p = k then (k, v) # m else p # map_set k v m)"

definition recordBeaten :: "PersonalRecord option \<Rightarrow> WorkoutSet \<Rightarrow> bool" where
  "recordBeaten currentRecord s =
     (case currentRecord of
        None \<Rightarrow> True
      | Some r \<Rightarrow> js_gt (weight s) (maxWeight r) \<or>
                  js_gt (reps s) (maxReps r) \<or>
                  js_gt (js_mul (reps s) (weight s)) (maxVolume r) \<or>
                  js_gt (brzycki s) (oneRepMax_r r))"

text \<open>\<open>currentRecord?.f || 0\<close> for a field \<open>f\<close> of the record.\<close>

definition fieldOr0 :: "PersonalRecord option \<Rightarrow> (PersonalRecord \<Rightarrow> jsnum) \<Rightarrow> jsnum" where
  "fieldOr0 currentRecord f =
     (case currentRecord of None \<Rightarrow> Fin 0 | Some r \<Rightarrow> js_or (f r) (Fin 0))"

definition updatedRecord ::
  "(string \<Rightarrow> Exercise option) \<Rightarrow> Workout \<Rightarrow> string \<Rightarrow> PersonalRecord option \<Rightarrow> WorkoutSet
     \<Rightarrow> PersonalRecord" where
  "updatedRecord lookup workout eid currentRecord s =
     \<lparr>exerciseId_r = eid,
      exerciseName_r = (case lookup eid of None \<Rightarrow> eid
                        | Some exercise \<Rightarrow>
                            if name_x exercise = [] then eid else name_x exercise),
      maxWeight = js_max (fieldOr0 currentRecord maxWeight) (weight s),
      maxReps = js_max (fieldOr0 currentRecord maxReps) (reps s),
      maxVolume = js_max (fieldOr0 currentRecord maxVolume) (js_mul (reps s) (weight s)),
      oneRepMax_r = js_max (fieldOr0 currentRecord oneRepMax_r) (brzycki s),
      achievedDate = startTime workout\<rparr>"

type_synonym records = "(string \<times> PersonalRecord) list"

definition scanSet ::
  "(string \<Rightarrow> Exercise option) \<Rightarrow> Workout \<Rightarrow> string \<Rightarrow> PersonalRecord option \<Rightarrow> WorkoutSet
     \<Rightarrow> records \<Rightarrow> records" where
  "scanSet lookup workout eid currentRecord s exerciseRecords =
     (if recordBeaten currentRecord s
      then map_set eid (updatedRecord lookup workout eid currentRecord s) exerciseRecords
      else exerciseRecords)"

definition scanExercise ::
  "(string \<Rightarrow> Exercise option) \<Rightarrow> Workout \<Rightarrow> WorkoutExercise \<Rightarrow> records \<Rightarrow> records" where
  "scanExercise lookup workout exerciseData exerciseRecords =
     (let currentRecord = map_of exerciseRecords (exerciseId exerciseData)
      in fold (scanSet lookup workout (exerciseId exerciseData) currentRecord)
           (sets exerciseData) exerciseRecords)"

definition scanWorkout ::
  "(string \<Rightarrow> Exercise option) \<Rightarrow> Workout \<Rightarrow> records \<Rightarrow> records" where
  "scanWorkout lookup workout exerciseRecords =
     fold (scanExercise lookup workout) (exercises workout) exerciseRecords"

definition scanWorkouts ::
  "(string \<Rightarrow> Exercise option) \<Rightarrow> Workout list \<Rightarrow> records \<Rightarrow> records" where
  "scanWorkouts lookup allWorkouts exerciseRecords =
     fold (scanWorkout lookup) allWorkouts exerciseRecords"

definition getPersonalRecords ::
  "(string \<Rightarrow> Exercise option) \<Rightarrow> Workout list option \<Rightarrow> PersonalRecord list" where
  "getPersonalRecords lookup historyData =
     map snd (scanWorkouts lookup (getWorkoutHistory historyData None None) [])"

definition getExercisePersonalRecord ::
  "(string \<Rightarrow> Exercise option) \<Rightarrow> Workout list option \<Rightarrow> string \<Rightarrow> PersonalRecord option" where
  "getExercisePersonalRecord lookup historyData eid =
     find (\<lambda>record. exerciseId_r record = eid) (getPersonalRecords lookup historyData)"

text \<open>\<open>calculateTrendDirection\<close>; the threshold \<open>0.05\<close> is the double nearest to \<open>1/20\<close>.\<close>

definition calculateTrendDirection :: "jsnum list \<Rightarrow> TrendDirection" where
  "calculateTrendDirection values =
     (if length values < 2 then stable
      else
        let firstValue = hd values;
            lastValue = last values;
            change = js_div (js_sub lastValue firstValue) firstValue;
            threshold = fl (1 / 20)
        in if js_gt change threshold then up
           else if js_lt change (js_neg threshold) then down
           else stable)"

definition calculateProgressRate :: "StrengthPoint list \<Rightarrow> jsnum" where
  "calculateProgressRate points =
     (if length points < 2 then Fin 0
      else
        let sortedPoints = sort_key date points;
            firstPoint = hd sortedPoints;
            lastPoint = last sortedPoints;
            timeDiffWeeks = js_div (Fin (of_int (date lastPoint - date firstPoint)))
                              (Fin (of_int (msPerDay * 7)));
            oneRepMaxChange = js_sub (oneRepMax_p lastPoint) (oneRepMax_p firstPoint)
        in if js_gt timeDiffWeeks (Fin 0) \<and> js_gt (oneRepMax_p firstPoint) (Fin 0)
           then js_mul (js_div (js_div oneRepMaxChange (oneRepMax_p firstPoint))
                          timeDiffWeeks) (Fin 100)
           else Fin 0)"

text \<open>
  The running values of a session's data point in \<open>getStrengthProgression\<close>, in the
  order \<open>maxWeight\<close>, \<open>totalVolume\<close>, \<open>maxOneRepMax\<close>.
\<close>

definition addSetPoint :: "WorkoutSet \<Rightarrow> jsnum \<times> jsnum \<times> jsnum \<Rightarrow> jsnum \<times> jsnum \<times> jsnum" where
  "addSetPoint s = (\<lambda>(maxWeight', totalVolume', maxOneRepMax).
     (js_max maxWeight' (weight s),
      js_add totalVolume' (js_mul (reps s) (weight s)),
      js_max maxOneRepMax (brzycki s)))"

definition addWorkoutPoint :: "string \<Rightarrow> Workout \<Rightarrow> StrengthPoint list \<Rightarrow> StrengthPoint list" where
  "addWorkoutPoint eid workout points =
     (case find (\<lambda>e. exerciseId e = eid) (exercises workout) of
        None \<Rightarrow> points
      | Some exerciseData \<Rightarrow>
          if 0 < length (sets exerciseData)
          then (case fold addSetPoint (sets exerciseData) (Fin 0, Fin 0, Fin 0) of
                  (maxWeight', totalVolume', maxOneRepMax) \<Rightarrow>
                    points @ [\<lparr>date = startTime workout, weight_p = maxWeight',
                                oneRepMax_p = maxOneRepMax, volume = totalVolume'\<rparr>])
          else points)"

definition getStrengthProgression ::
  "(string \<Rightarrow> Exercise option) \<Rightarrow> Workout list option \<Rightarrow> string \<Rightarrow> TimeRange
     \<Rightarrow> string + StrengthProgression" where
  "getStrengthProgression lookup historyData eid timeRange =
     (let workouts = getWorkoutsInTimeRange historyData timeRange
      in case lookup eid of
           None \<Rightarrow> Inl (''Failed to get strength progression: '' @
                         ''Exercise with ID '' @ eid @ '' not found'')
         | Some exercise \<Rightarrow>
             let points = sort_key date (fold (addWorkoutPoint eid) workouts [])
             in Inr \<lparr>exerciseId_s = eid, exerciseName_s = name_x exercise,
                     dataPoints = points,
                     trendDirection = calculateTrendDirection (map oneRepMax_p points),
                     progressRate = calculateProgressRate points\<rparr>)"

section \<open>The streak rule in the words of the specification\<close>

text \<open>
  The runs of a list of dates: a date within seven days after the last date of the
  current run extends the run; a later date closes the run and starts a new one.
\<close>

fun spec_walk :: "int list \<Rightarrow> int list \<Rightarrow> int list list" where
  "spec_walk run [] = [run]"
| "spec_walk run (d # ds) =
     (if d - last run \<le> 7 * msPerDay then spec_walk (run @ [d]) ds
      else run # spec_walk [d] ds)"

fun spec_runs :: "int list \<Rightarrow> int list list" where
  "spec_runs [] = []"
| "spec_runs (d # ds) = spec_walk [d] ds"

definition spec_longestStreak :: "int list \<Rightarrow> nat" where
  "spec_longestStreak ds = fold max (map length (spec_runs ds)) 0"

definition spec_currentStreak :: "int list \<Rightarrow> int \<Rightarrow> nat" where
  "spec_currentStreak ds now =
     (if ds = [] then 0
      else if now - last ds \<le> 7 * msPerDay then length (last (spec_runs ds))
      else 0)"


section \<open>Notions used in the statements and proofs\<close>

text \<open>The display name \<open>getPersonalRecords\<close> gives a record: \<open>exercise?.name || id\<close>.\<close>

definition displayName :: "(string \<Rightarrow> Exercise option) \<Rightarrow> string \<Rightarrow> string" where
  "displayName lookup eid =
     (case lookup eid of None \<Rightarrow> eid
      | Some exercise \<Rightarrow> if name_x exercise = [] then eid else name_x exercise)"

text \<open>Every record of the map sits under its own exercise id and carries its display name.\<close>

definition namesOk :: "(string \<Rightarrow> Exercise option) \<Rightarrow> records \<Rightarrow> bool" where
  "namesOk lookup m =
     (\<forall>p \<in> set m. exerciseId_r (snd p) = fst p \<and>
                   exerciseName_r (snd p) = displayName lookup (fst p))"

text \<open>
  The four values of a set that the personal records compare (weight, repetitions,
  volume and one-rep-max) are numbers, not \<open>NaN\<close>.
\<close>

definition dims_defined :: "WorkoutSet \<Rightarrow> bool" where
  "dims_defined s = (weight s \<noteq> NaN \<and> reps s \<noteq> NaN \<and>
                     js_mul (reps s) (weight s) \<noteq> NaN \<and> brzycki s \<noteq> NaN)"

text \<open>A record is at most another one in each of the four dimensions, by \<open><=\<close>.\<close>

definition record_le :: "PersonalRecord \<Rightarrow> PersonalRecord \<Rightarrow> bool" where
  "record_le a b = (js_le (maxWeight a) (maxWeight b) \<and> js_le (maxReps a) (maxReps b) \<and>
                    js_le (maxVolume a) (maxVolume b) \<and> js_le (oneRepMax_r a) (oneRepMax_r b))"

definition wf_record :: "PersonalRecord \<Rightarrow> bool" where
  "wf_record r = (js_le (Fin 0) (maxWeight r) \<and> js_le (Fin 0) (maxReps r) \<and>
                  js_le (Fin 0) (maxVolume r) \<and> js_le (Fin 0) (oneRepMax_r r))"

text \<open>The order on the entry of the map for one exercise: an absent record is least.\<close>

fun ropt_le :: "PersonalRecord option \<Rightarrow> PersonalRecord option \<Rightarrow> bool" where
  "ropt_le None None = True"
| "ropt_le None (Some b) = wf_record b"
| "ropt_le (Some a) None = False"
| "ropt_le (Some a) (Some b) = (wf_record a \<and> record_le a b)"

definition records_le :: "records \<Rightarrow> records \<Rightarrow> bool" where
  "records_le m m' = (\<forall>k. ropt_le (map_of m k) (map_of m' k))"

definition workout_defined :: "Workout \<Rightarrow> bool" where
  "workout_defined w = (\<forall>e \<in> set (exercises w). \<forall>s \<in> set (sets e). dims_defined s)"

text \<open>
  What the loop over the sets of one exercise entry does to the entry of the map for
  that exercise, with \<open>currentRecord\<close> fixed.
\<close>

definition entryFold ::
  "(string \<Rightarrow> Exercise option) \<Rightarrow> Workout \<Rightarrow> string \<Rightarrow> PersonalRecord option
     \<Rightarrow> WorkoutSet list \<Rightarrow> PersonalRecord option \<Rightarrow> PersonalRecord option" where
  "entryFold l w e cur ss acc =
     fold (\<lambda>s acc. if recordBeaten cur s then Some (updatedRecord l w e cur s) else acc) ss acc"

text \<open>
  Every record of the map carries the start time of a workout among \<open>W\<close> that has an
  entry with a set for the record's exercise.
\<close>

definition originOk :: "Workout set \<Rightarrow> records \<Rightarrow> bool" where
  "originOk W m =
     (\<forall>p \<in> set m. \<exists>wk \<in> W. achievedDate (snd p) = startTime wk \<and>
        (\<exists>e \<in> set (exercises wk). exerciseId e = fst p \<and> sets e \<noteq> []))"

section \<open>Example data\<close>

text \<open>
  An application state with an active workout that holds the exercise \<open>bench-press\<close>
  with no set yet; the storage holds the same workout and no history.
\<close>

definition benchEntry :: WorkoutExercise where
  "benchEntry = \<lparr>exerciseId = ''bench-press'', sets = [], restTime_e = Fin 120, notes_e = []\<rparr>"

definition activeWorkout :: Workout where
  "activeWorkout = \<lparr>id_w = ''workout_1'', name_w = ''Push Day'', startTime = 1000,
                     endTime = None, exercises = [benchEntry], notes_w = []\<rparr>"

definition activeApp :: app where
  "activeApp = (\<lparr>currentWorkout = Some activeWorkout, workoutHistory = [],
                  isLoading = False, error = None\<rparr>,
                \<lparr>stored_currentWorkout = Some activeWorkout,
                  stored_workoutHistory = None\<rparr>)"

text \<open>
  A catalog that knows \<open>bench-press\<close> only, and completed workouts: one with a set of 38
  repetitions, and a later and an earlier one with a single set each.
\<close>

definition benchPress :: Exercise where
  "benchPress = \<lparr>id_x = ''bench-press'', name_x = ''Bench Press'', muscleGroups = [''chest''],
                  equipment = [''barbell''], category = ''strength'', instructions = [],
                  imageUrl = []\<rparr>"

definition catalog :: "string \<Rightarrow> Exercise option" where
  "catalog eid = (if eid = ''bench-press'' then Some benchPress else None)"

definition highRepWorkout :: Workout where
  "highRepWorkout =
     \<lparr>id_w = ''workout_0'', name_w = ''Endurance'', startTime = 1000, endTime = Some 2000,
      exercises = [\<lparr>exerciseId = ''bench-press'',
                     sets = [\<lparr>reps = Fin 38, weight = Fin 100, completed = True,
                              restTime = Fin 0\<rparr>],
                     restTime_e = Fin 120, notes_e = []\<rparr>],
      notes_w = []\<rparr>"

definition heavyWorkout :: Workout where
  "heavyWorkout =
     \<lparr>id_w = ''workout_b'', name_w = ''Heavy'', startTime = 2000, endTime = Some 2500,
      exercises = [\<lparr>exerciseId = ''bench-press'',
                     sets = [\<lparr>reps = Fin 5, weight = Fin 100, completed = True,
                              restTime = Fin 0\<rparr>],
                     restTime_e = Fin 120, notes_e = []\<rparr>],
      notes_w = []\<rparr>"

definition lightWorkout :: Workout where
  "lightWorkout =
     \<lparr>id_w = ''workout_a'', name_w = ''Light'', startTime = 1000, endTime = Some 1500,
      exercises = [\<lparr>exerciseId = ''bench-press'',
                     sets = [\<lparr>reps = Fin 10, weight = Fin 50, completed = True,
                              restTime = Fin 0\<rparr>],
                     restTime_e = Fin 120, notes_e = []\<rparr>],
      notes_w = []\<rparr>"

text \<open>A completed workout whose exercise has two sets, the heavier one first.\<close>

definition twoSetWorkout :: Workout where
  "twoSetWorkout =
     \<lparr>id_w = ''workout_t'', name_w = ''Two sets'', startTime = 3000, endTime = Some 3500,
      exercises = [\<lparr>exerciseId = ''bench-press'',
                     sets = [\<lparr>reps = Fin 1, weight = Fin 100, completed = True,
                              restTime = Fin 0\<rparr>,
                             \<lparr>reps = Fin 5, weight = Fin 80, completed = True,
                              restTime = Fin 0\<rparr>],
                     restTime_e = Fin 120, notes_e = []\<rparr>],
      notes_w = []\<rparr>"

text \<open>
  Two more completed workouts: an early one with a single repetition at weight 105,
  and one between it and \<open>heavyWorkout\<close> with 37 repetitions at weight 0.
\<close>

definition singleWorkout :: Workout where
  "singleWorkout =
     \<lparr>id_w = ''workout_s'', name_w = ''Single'', startTime = 500, endTime = Some 900,
      exercises = [\<lparr>exerciseId = ''bench-press'',
                     sets = [\<lparr>reps = Fin 1, weight = Fin 105, completed = True,
                              restTime = Fin 0\<rparr>],
                     restTime_e = Fin 120, notes_e = []\<rparr>],
      notes_w = []\<rparr>"

definition zeroWeightWorkout :: Workout where
  "zeroWeightWorkout =
     \<lparr>id_w = ''workout_z'', name_w = ''Bar only'', startTime = 1500, endTime = Some 1900,
      exercises = [\<lparr>exerciseId = ''bench-press'',
                     sets = [\<lparr>reps = Fin 37, weight = Fin 0, completed = True,
                              restTime = Fin 0\<rparr>],
                     restTime_e = Fin 120, notes_e = []\<rparr>],
      notes_w = []\<rparr>"

section \<open>Streaks\<close>

lemma fold_max_acc: "fold max xs (a::nat) = max a (fold max xs 0)"
proof (induction xs arbitrary: a)
  case Nil
  then show ?case by simp
next
  case (Cons x xs)
  have "fold max (x # xs) a = fold max xs (max x a)" by simp
  also have "\<dots> = max (max x a) (fold max xs 0)" by (rule Cons.IH)
  also have "\<dots> = max a (max x (fold max xs 0))" by (simp add: max.left_commute max.commute)
  also have "max x (fold max xs 0) = fold max xs x" using Cons.IH[of x] by simp
  finally show ?case by simp
qed

text \<open>The test on the quotient by the milliseconds of a day is a test on the milliseconds.\<close>

lemma days_le_iff: "((of_int k :: rat) / of_int msPerDay \<le> 7) = (k \<le> 7 * msPerDay)"
proof -
  have "(of_int k :: rat) / of_int msPerDay \<le> 7 \<longleftrightarrow> (of_int k :: rat) \<le> 7 * of_int msPerDay"
    by (simp add: msPerDay_def pos_divide_le_eq)
  also have "\<dots> \<longleftrightarrow> (of_int k :: rat) \<le> of_int (7 * msPerDay)" by simp
  also have "\<dots> \<longleftrightarrow> k \<le> 7 * msPerDay" by (simp only: of_int_le_iff)
  finally show ?thesis .
qed

lemma spec_walk_nonempty: "spec_walk run ds \<noteq> []"
  by (induction ds arbitrary: run) auto

text \<open>The runs of the specification cut the list of dates into consecutive pieces.\<close>

lemma spec_walk_concat: "concat (spec_walk run ds) = run @ ds"
  by (induction ds arbitrary: run) auto

lemma spec_runs_concat: "concat (spec_runs ds) = ds"
  by (cases ds) (simp_all add: spec_walk_concat)

lemma streakLoop_in:
  "prev \<le> d \<Longrightarrow> d - prev \<le> 7 * msPerDay \<Longrightarrow>
   streakLoop prev (d # ds) longest temp = streakLoop d ds longest (temp + 1)"
  using days_le_iff[of "\<bar>d - prev\<bar>"] by (simp add: Let_def del: of_int_diff of_int_abs)

lemma streakLoop_out:
  "prev \<le> d \<Longrightarrow> \<not> d - prev \<le> 7 * msPerDay \<Longrightarrow>
   streakLoop prev (d # ds) longest temp = streakLoop d ds (max longest temp) 1"
  using days_le_iff[of "\<bar>d - prev\<bar>"] by (simp add: Let_def del: of_int_diff of_int_abs)

lemma spec_walk_longest_pos:
  "run \<noteq> [] \<Longrightarrow> 1 \<le> fold max (map length (spec_walk run ds)) 0"
proof (induction ds arbitrary: run)
  case Nil
  then show ?case by (cases run) simp_all
next
  case (Cons d ds)
  show ?case
  proof (cases "d - last run \<le> 7 * msPerDay")
    case True
    then show ?thesis using Cons.IH[of "run @ [d]"] by simp
  next
    case False
    have "1 \<le> length run" using Cons.prems by (cases run) simp_all
    then show ?thesis using False fold_max_acc[of "map length (spec_walk [d] ds)" "length run"]
      by simp
  qed
qed

text \<open>
  The loop against the walk of the specification: when the loop stands at a date with
  \<open>tempStreak\<close> the length of the run so far, it ends with \<open>tempStreak\<close> the length of
  the last run and with the longest run among \<open>longestStreak\<close> and \<open>tempStreak\<close>.
\<close>

lemma streakLoop_walk:
  "sorted (prev # ds) \<Longrightarrow> run \<noteq> [] \<Longrightarrow> last run = prev \<Longrightarrow>
   streakLoop prev ds longest (length run) = (l, t) \<Longrightarrow>
   max l t = max longest (fold max (map length (spec_walk run ds)) 0)
   \<and> t = length (last (spec_walk run ds))"
proof (induction ds arbitrary: prev run longest)
  case Nil
  then show ?case by simp
next
  case (Cons d ds)
  have pd: "prev \<le> d" and sd: "sorted (d # ds)" using Cons.prems(1) by auto
  show ?case
  proof (cases "d - prev \<le> 7 * msPerDay")
    case True
    have "streakLoop d ds longest (length (run @ [d])) = (l, t)"
      using Cons.prems(4) streakLoop_in[OF pd True] by simp
    then have "max l t = max longest (fold max (map length (spec_walk (run @ [d]) ds)) 0)
       \<and> t = length (last (spec_walk (run @ [d]) ds))"
      by (intro Cons.IH[OF sd]) simp_all
    then have ih: "max l t = max longest (fold max (map length (spec_walk (run @ [d]) ds)) 0)
       \<and> t = length (last (spec_walk (run @ [d]) ds))" .
    have sw: "spec_walk run (d # ds) = spec_walk (run @ [d]) ds"
      using True Cons.prems(3) by simp
    show ?thesis unfolding sw by (rule ih)
  next
    case False
    have "streakLoop d ds (max longest (length run)) (length [d]) = (l, t)"
      using Cons.prems(4) streakLoop_out[OF pd False] by simp
    then have ih: "max l t = max (max longest (length run))
                               (fold max (map length (spec_walk [d] ds)) 0)
       \<and> t = length (last (spec_walk [d] ds))"
      by (intro Cons.IH[OF sd]) simp_all
    have sw: "spec_walk run (d # ds) = run # spec_walk [d] ds"
      using False Cons.prems(3) by simp
    have f: "fold max (map length (spec_walk [d] ds)) (length run)
             = max (length run) (fold max (map length (spec_walk [d] ds)) 0)"
      by (rule fold_max_acc)
    have e1: "fold max (map length (spec_walk run (d # ds))) 0
              = max (length run) (fold max (map length (spec_walk [d] ds)) 0)"
      using f by (simp add: sw del: spec_walk.simps)
    have e2: "last (spec_walk run (d # ds)) = last (spec_walk [d] ds)"
      using spec_walk_nonempty[of "[d]" ds] by (simp add: sw del: spec_walk.simps)
    show ?thesis using ih unfolding e1 e2 max.assoc by blast
  qed
qed

lemma calculateStreaks_spec:
  assumes "sorted ds"
  shows "calculateStreaks ds now = (spec_longestStreak ds, spec_currentStreak ds now)"
proof (cases ds)
  case Nil
  then show ?thesis by (simp add: spec_longestStreak_def spec_currentStreak_def)
next
  case (Cons d ds')
  have s: "sorted (d # ds')" using assms Cons by simp
  obtain l t where lt: "streakLoop d ds' 1 1 = (l, t)" by (cases "streakLoop d ds' 1 1")
  have "streakLoop d ds' 1 (length [d]) = (l, t)" using lt by simp
  then have w: "max l t = max 1 (fold max (map length (spec_walk [d] ds')) 0)
     \<and> t = length (last (spec_walk [d] ds'))"
    by (intro streakLoop_walk[OF s]) simp_all
  have ge1: "1 \<le> fold max (map length (spec_walk [d] ds')) 0"
    by (rule spec_walk_longest_pos) simp
  have n: "((of_int (now - last (d # ds')) :: rat) / of_int msPerDay \<le> 7)
           = (now - last (d # ds') \<le> 7 * msPerDay)"
    by (rule days_le_iff)
  have "calculateStreaks (d # ds') now =
     (max l t, if now - last (d # ds') \<le> 7 * msPerDay then t else 0)"
    using n lt by (simp add: Let_def del: of_int_diff last.simps)
  moreover have "max l t = spec_longestStreak (d # ds')"
  proof -
    have "max 1 (fold max (map length (spec_walk [d] ds')) 0)
          = fold max (map length (spec_walk [d] ds')) 0"
      using ge1 by simp
    then have "max l t = fold max (map length (spec_walk [d] ds')) 0" using w by metis
    then show ?thesis by (simp only: spec_longestStreak_def spec_runs.simps)
  qed
  moreover have "t = length (last (spec_runs (d # ds')))"
    using w by (simp only: spec_runs.simps)
  ultimately show ?thesis using Cons by (simp add: spec_currentStreak_def del: last.simps)
qed

lemma streak_scenario:
  "7 * msPerDay < later - 1737331200000 \<Longrightarrow>
   calculateStreaks [1735689600000, 1736035200000, 1737331200000] later = (2, 0)"
  using days_le_iff[of "later - 1737331200000"]
  by (simp add: Let_def msPerDay_def del: of_int_diff)

text \<open>
  C7. For an ascending list of session start dates, \<open>calculateStreaks\<close> returns the
  streaks of the specification: a date at most seven days after its predecessor extends
  the current run and a later one starts a new run, \<open>longestStreak\<close> is the greatest run
  length, and \<open>currentStreak\<close> is the length of the last run when the most recent date
  is at most seven days before the clock reading and 0 otherwise. For the dates
  2025-01-01, 2025-01-05 and 2025-01-20 (UTC midnights, in milliseconds) and a clock
  reading more than seven days after the last, the result is \<open>longestStreak = 2\<close> and
  \<open>currentStreak = 0\<close>.
\<close>

theorem calculateStreaks_matches_spec:
  assumes "sorted ds" and "7 * msPerDay < later - 1737331200000"
  shows "calculateStreaks ds now = (spec_longestStreak ds, spec_currentStreak ds now)
         \<and> calculateStreaks [1735689600000, 1736035200000, 1737331200000] later = (2, 0)"
  using calculateStreaks_spec[OF assms(1)] streak_scenario[OF assms(2)] by simp

theorem calculateStreaks_matches_spec_witness:
  "sorted [1735689600000, 1736035200000, 1737331200000 :: int]
   \<and> 7 * msPerDay < 1738022400000 - 1737331200000
   \<and> spec_runs [1735689600000, 1736035200000, 1737331200000]
       = [[1735689600000, 1736035200000], [1737331200000]]
   \<and> calculateStreaks [1735689600000, 1736035200000, 1737331200000] 1738022400000
       = (spec_longestStreak [1735689600000, 1736035200000, 1737331200000],
          spec_currentStreak [1735689600000, 1736035200000, 1737331200000] 1738022400000)
   \<and> calculateStreaks [1735689600000, 1736035200000, 1737331200000] 1738022400000 = (2, 0)"
proof -
  have h1: "sorted [1735689600000, 1736035200000, 1737331200000 :: int]" by simp
  have h2: "7 * msPerDay < 1738022400000 - 1737331200000" by (simp add: msPerDay_def)
  have h3: "spec_runs [1735689600000, 1736035200000, 1737331200000]
       = [[1735689600000, 1736035200000], [1737331200000]]"
    by (simp add: msPerDay_def)
  have t: "calculateStreaks [1735689600000, 1736035200000, 1737331200000] 1738022400000
       = (spec_longestStreak [1735689600000, 1736035200000, 1737331200000],
          spec_currentStreak [1735689600000, 1736035200000, 1737331200000] 1738022400000)
     \<and> calculateStreaks [1735689600000, 1736035200000, 1737331200000] 1738022400000 = (2, 0)"
    by (rule calculateStreaks_matches_spec[OF h1 h2])
  show ?thesis
    by (intro conjI h1 h2 h3 conjunct1[OF t] conjunct2[OF t])
qed


section \<open>Workout store commands\<close>

text \<open>What each command returns, on the states where it changes the session.\<close>

lemma startWorkout_eq:
  "startWorkout newId generatedName now name ok (s, d) =
     (s\<lparr>currentWorkout :=
          Some \<lparr>id_w = newId,
                name_w = (case name of None \<Rightarrow> generatedName
                          | Some n \<Rightarrow> if n = [] then generatedName else n),
                startTime = now, endTime = None, exercises = [], notes_w = []\<rparr>,
        error := (if ok then None else Some ''Failed to start workout''),
        isLoading := False\<rparr>,
      if ok then d\<lparr>stored_currentWorkout :=
          Some \<lparr>id_w = newId,
                name_w = (case name of None \<Rightarrow> generatedName
                          | Some n \<Rightarrow> if n = [] then generatedName else n),
                startTime = now, endTime = None, exercises = [], notes_w = []\<rparr>\<rparr> else d)"
  by (simp add: startWorkout_def startWorkout_try_def Let_def)

lemma addExerciseToWorkout_eq:
  assumes "currentWorkout s = Some cw"
    and "find (\<lambda>e. exerciseId e = eid) (exercises cw) = None"
  shows "addExerciseToWorkout eid ok (s, d) =
     (s\<lparr>currentWorkout := Some (cw\<lparr>exercises := exercises cw @
            [\<lparr>exerciseId = eid, sets = [], restTime_e = Fin 120, notes_e = []\<rparr>]\<rparr>),
        error := (if ok then error s else Some ''Failed to add exercise to workout'')\<rparr>,
      if ok then d\<lparr>stored_currentWorkout := Some (cw\<lparr>exercises := exercises cw @
            [\<lparr>exerciseId = eid, sets = [], restTime_e = Fin 120, notes_e = []\<rparr>]\<rparr>)\<rparr>
      else d)"
  using assms by (simp add: addExerciseToWorkout_def addExerciseToWorkout_try_def Let_def)

lemma addSetToExercise_eq:
  assumes "currentWorkout s = Some cw"
    and "findIndex (\<lambda>e. exerciseId e = eid) (exercises cw) = Some i"
  shows "addSetToExercise eid setInput ok (s, d) =
     (s\<lparr>currentWorkout := Some (cw\<lparr>exercises := (exercises cw)[i := (exercises cw ! i)
            \<lparr>sets := sets (exercises cw ! i) @
               [\<lparr>reps = reps_i setInput, weight = weight_i setInput,
                 completed = (case completed_i setInput of None \<Rightarrow> True | Some c \<Rightarrow> c),
                 restTime = Fin 0\<rparr>]\<rparr>]\<rparr>),
        error := (if ok then error s else Some ''Failed to add set to exercise'')\<rparr>,
      if ok then d\<lparr>stored_currentWorkout := Some (cw\<lparr>exercises :=
          (exercises cw)[i := (exercises cw ! i)
            \<lparr>sets := sets (exercises cw ! i) @
               [\<lparr>reps = reps_i setInput, weight = weight_i setInput,
                 completed = (case completed_i setInput of None \<Rightarrow> True | Some c \<Rightarrow> c),
                 restTime = Fin 0\<rparr>]\<rparr>]\<rparr>)\<rparr>
      else d)"
  using assms by (simp add: addSetToExercise_def addSetToExercise_try_def Let_def)

lemma findIndex_Some: "findIndex P xs = Some i \<Longrightarrow> i < length xs \<and> P (xs ! i)"
proof (induction xs arbitrary: i)
  case Nil
  then show ?case by simp
next
  case (Cons x xs)
  then show ?case by (cases "P x") auto
qed

lemma completeWorkout_ok:
  assumes "currentWorkout s = Some cw" and "exercises cw \<noteq> []"
  shows "completeWorkout now okRemove okSet (s, d) =
     (s\<lparr>currentWorkout := None,
        workoutHistory := cw\<lparr>endTime := Some now\<rparr> # workoutHistory s,
        error := (if okRemove \<and> okSet then None else Some ''Failed to complete workout''),
        isLoading := False\<rparr>,
      d\<lparr>stored_currentWorkout := (if okRemove then None else stored_currentWorkout d),
        stored_workoutHistory :=
          (if okSet then Some (cw\<lparr>endTime := Some now\<rparr> # workoutHistory s)
           else stored_workoutHistory d)\<rparr>)"
  using assms by (simp add: completeWorkout_def completeWorkout_try_def Let_def)

text \<open>
  Completing with no active workout throws inside the \<open>try\<close> block; the handler
  reports it and nothing else changes.
\<close>

lemma completeWorkout_no_active:
  assumes "currentWorkout s = None"
  shows "snd (completeWorkout_try now okRemove okSet (s, d))
           = Some (Error ''No active workout to complete'')
       \<and> completeWorkout now okRemove okSet (s, d)
           = (s\<lparr>error := Some ''Failed to complete workout'', isLoading := False\<rparr>, d)"
  using assms by (simp add: completeWorkout_def completeWorkout_try_def Let_def)

text \<open>Completing a workout with no exercise reports it and keeps the workout active.\<close>

lemma completeWorkout_empty:
  assumes "currentWorkout s = Some cw" and "exercises cw = []"
  shows "completeWorkout now okRemove okSet (s, d)
           = (s\<lparr>error := Some ''Cannot complete workout with no exercises'',
                 isLoading := False\<rparr>, d)"
  using assms by (simp add: completeWorkout_def completeWorkout_try_def Let_def)

text \<open>
  After a completion the slot is empty: a second completion throws for the missing
  workout, and the history holds the completed workout once.
\<close>

lemma completeWorkout_twice:
  assumes "currentWorkout s = Some cw" and "exercises cw \<noteq> []"
  shows "snd (completeWorkout_try now' r' w' (completeWorkout now r w (s, d)))
           = Some (Error ''No active workout to complete'')
       \<and> workoutHistory (fst (completeWorkout now' r' w' (completeWorkout now r w (s, d))))
           = cw\<lparr>endTime := Some now\<rparr> # workoutHistory s"
  using assms by (simp add: completeWorkout_ok completeWorkout_no_active)

text \<open>
  C1. \<open>addSetToExercise\<close> of the store does not validate its input. On the active
  workout holding \<open>bench-press\<close>, the input of \<open>-5\<close> repetitions at weight 80 is appended
  as a set, completed by default, and no error is reported, although
  \<open>SetValidator.validate\<close> rejects these repetitions.
\<close>

theorem addSetToExercise_accepts_negative_reps:
  "currentWorkout (fst (addSetToExercise ''bench-press''
        \<lparr>reps_i = Fin (- 5), weight_i = Fin 80, completed_i = None\<rparr> True activeApp))
     = Some (activeWorkout\<lparr>exercises := [benchEntry\<lparr>sets :=
          [\<lparr>reps = Fin (- 5), weight = Fin 80, completed = True, restTime = Fin 0\<rparr>]\<rparr>]\<rparr>)
   \<and> error (fst (addSetToExercise ''bench-press''
        \<lparr>reps_i = Fin (- 5), weight_i = Fin 80, completed_i = None\<rparr> True activeApp)) = None
   \<and> validate_errors \<lparr>reps_o = Some (Fin (- 5)), weight_o = Some (Fin 80),
         completed_o = None, restTime_o = Some (Fin 0)\<rparr>
     = [''Reps must be a positive integer'']"
  by (simp add: activeApp_def activeWorkout_def benchEntry_def addSetToExercise_def
      addSetToExercise_try_def Let_def validate_errors_def js_le_def js_eq_def js_gt_def
      js_truthy_def)

text \<open>
  C3, as the claim states it, fails: with a workout active, \<open>startWorkout\<close> puts a new
  workout in its place and reports no error.
\<close>

theorem startWorkout_replaces_active:
  "currentWorkout (fst (startWorkout ''workout_2'' ''Workout 2'' 2000 None True activeApp))
     \<noteq> currentWorkout (fst activeApp)
   \<and> error (fst (startWorkout ''workout_2'' ''Workout 2'' 2000 None True activeApp)) = None"
  by (simp add: activeApp_def activeWorkout_def startWorkout_eq)

text \<open>
  C3, amended. From every state, with or without an active workout, \<open>startWorkout\<close>
  leaves in the single \<open>currentWorkout\<close> slot a new workout with the generated id, the
  given name (the generated one when the name is absent or empty), the clock reading as
  start time, no end time and no exercise; the history is untouched, and when the write
  to the storage resolves no error is reported. The slot holds at most one workout, and
  a workout that was active is replaced.
\<close>

theorem startWorkout_always_starts:
  "currentWorkout (fst (startWorkout newId generatedName now name ok (s, d)))
     = Some \<lparr>id_w = newId,
             name_w = (case name of None \<Rightarrow> generatedName
                       | Some n \<Rightarrow> if n = [] then generatedName else n),
             startTime = now, endTime = None, exercises = [], notes_w = []\<rparr>
   \<and> workoutHistory (fst (startWorkout newId generatedName now name ok (s, d)))
     = workoutHistory s
   \<and> error (fst (startWorkout newId generatedName now name True (s, d))) = None"
  by (simp add: startWorkout_eq)

text \<open>
  The two storage calls of a completion are independent: when the removal of the
  current workout is rejected and the write of the history resolves, the error is set,
  the history is written and the stored current workout stays.
\<close>

lemma completeWorkout_removal_rejected:
  "completeWorkout 5000 False True activeApp
     = (\<lparr>currentWorkout = None, workoutHistory = [activeWorkout\<lparr>endTime := Some 5000\<rparr>],
         isLoading = False, error = Some ''Failed to complete workout''\<rparr>,
        \<lparr>stored_currentWorkout = Some activeWorkout,
         stored_workoutHistory = Some [activeWorkout\<lparr>endTime := Some 5000\<rparr>]\<rparr>)"
  by (simp add: activeApp_def activeWorkout_def benchEntry_def completeWorkout_def
      completeWorkout_try_def Let_def)

text \<open>
  C4, as the claim states it, fails: when the write to the storage is rejected,
  \<open>addSetToExercise\<close> has already changed the workout in memory and leaves it changed.
\<close>

theorem addSetToExercise_keeps_mutation_on_storage_failure:
  "currentWorkout (fst (addSetToExercise ''bench-press''
        \<lparr>reps_i = Fin 10, weight_i = Fin 80, completed_i = None\<rparr> False activeApp))
     \<noteq> currentWorkout (fst activeApp)
   \<and> error (fst (addSetToExercise ''bench-press''
        \<lparr>reps_i = Fin 10, weight_i = Fin 80, completed_i = None\<rparr> False activeApp))
     = Some ''Failed to add set to exercise''"
  by (simp add: activeApp_def activeWorkout_def benchEntry_def addSetToExercise_def
      addSetToExercise_try_def Let_def)

text \<open>
  C4, amended. Each of the commands start, add exercise, add set and complete changes
  the state in memory first and then calls the storage before it returns. Start, add
  exercise and add set make one write: when it resolves, the storage holds the updated
  workout; when it is rejected, the storage is as before. Complete makes two calls
  together, the removal of the current workout and the write of the history: each
  takes effect exactly when it resolves, whatever the other does, so the history can
  be written although the removal is rejected. In every case a rejected call keeps the
  change in memory, which is not rolled back, and sets the command's error message.
\<close>

theorem commands_write_through_without_rollback:
  assumes "currentWorkout s = Some cw"
    and "find (\<lambda>e. exerciseId e = newEid) (exercises cw) = None"
    and "findIndex (\<lambda>e. exerciseId e = eid) (exercises cw) = Some i"
  shows
    "startWorkout newId generatedName now name ok (s, d) =
       (s\<lparr>currentWorkout :=
            Some \<lparr>id_w = newId,
                  name_w = (case name of None \<Rightarrow> generatedName
                            | Some n \<Rightarrow> if n = [] then generatedName else n),
                  startTime = now, endTime = None, exercises = [], notes_w = []\<rparr>,
          error := (if ok then None else Some ''Failed to start workout''),
          isLoading := False\<rparr>,
        if ok then d\<lparr>stored_currentWorkout :=
            Some \<lparr>id_w = newId,
                  name_w = (case name of None \<Rightarrow> generatedName
                            | Some n \<Rightarrow> if n = [] then generatedName else n),
                  startTime = now, endTime = None, exercises = [], notes_w = []\<rparr>\<rparr>
        else d)
     \<and> addExerciseToWorkout newEid ok (s, d) =
       (s\<lparr>currentWorkout := Some (cw\<lparr>exercises := exercises cw @
              [\<lparr>exerciseId = newEid, sets = [], restTime_e = Fin 120, notes_e = []\<rparr>]\<rparr>),
          error := (if ok then error s else Some ''Failed to add exercise to workout'')\<rparr>,
        if ok then d\<lparr>stored_currentWorkout := Some (cw\<lparr>exercises := exercises cw @
              [\<lparr>exerciseId = newEid, sets = [], restTime_e = Fin 120, notes_e = []\<rparr>]\<rparr>)\<rparr>
        else d)
     \<and> addSetToExercise eid setInput ok (s, d) =
       (s\<lparr>currentWorkout := Some (cw\<lparr>exercises := (exercises cw)[i := (exercises cw ! i)
              \<lparr>sets := sets (exercises cw ! i) @
                 [\<lparr>reps = reps_i setInput, weight = weight_i setInput,
                   completed = (case completed_i setInput of None \<Rightarrow> True | Some c \<Rightarrow> c),
                   restTime = Fin 0\<rparr>]\<rparr>]\<rparr>),
          error := (if ok then error s else Some ''Failed to add set to exercise'')\<rparr>,
        if ok then d\<lparr>stored_currentWorkout := Some (cw\<lparr>exercises :=
            (exercises cw)[i := (exercises cw ! i)
              \<lparr>sets := sets (exercises cw ! i) @
                 [\<lparr>reps = reps_i setInput, weight = weight_i setInput,
                   completed = (case completed_i setInput of None \<Rightarrow> True | Some c \<Rightarrow> c),
                   restTime = Fin 0\<rparr>]\<rparr>]\<rparr>)\<rparr>
        else d)
     \<and> completeWorkout now okRemove okSet (s, d) =
       (s\<lparr>currentWorkout := None,
          workoutHistory := cw\<lparr>endTime := Some now\<rparr> # workoutHistory s,
          error := (if okRemove \<and> okSet then None else Some ''Failed to complete workout''),
          isLoading := False\<rparr>,
        d\<lparr>stored_currentWorkout := (if okRemove then None else stored_currentWorkout d),
          stored_workoutHistory :=
            (if okSet then Some (cw\<lparr>endTime := Some now\<rparr> # workoutHistory s)
             else stored_workoutHistory d)\<rparr>)"
proof -
  have ne: "exercises cw \<noteq> []"
    using findIndex_Some[OF assms(3)] by auto
  show ?thesis
    by (intro conjI startWorkout_eq addExerciseToWorkout_eq[OF assms(1,2)]
        addSetToExercise_eq[OF assms(1,3)] completeWorkout_ok[OF assms(1) ne])
qed

theorem commands_write_through_without_rollback_witness:
  "currentWorkout (fst activeApp) = Some activeWorkout
   \<and> find (\<lambda>e. exerciseId e = ''squat'') (exercises activeWorkout) = None
   \<and> findIndex (\<lambda>e. exerciseId e = ''bench-press'') (exercises activeWorkout) = Some 0
   \<and> currentWorkout (fst (addSetToExercise ''bench-press''
        \<lparr>reps_i = Fin 10, weight_i = Fin 80, completed_i = None\<rparr> False activeApp))
     = Some (activeWorkout\<lparr>exercises := [benchEntry\<lparr>sets :=
          [\<lparr>reps = Fin 10, weight = Fin 80, completed = True, restTime = Fin 0\<rparr>]\<rparr>]\<rparr>)
   \<and> snd (addSetToExercise ''bench-press''
        \<lparr>reps_i = Fin 10, weight_i = Fin 80, completed_i = None\<rparr> False activeApp)
     = snd activeApp
   \<and> stored_currentWorkout (snd (addSetToExercise ''bench-press''
        \<lparr>reps_i = Fin 10, weight_i = Fin 80, completed_i = None\<rparr> True activeApp))
     = Some (activeWorkout\<lparr>exercises := [benchEntry\<lparr>sets :=
          [\<lparr>reps = Fin 10, weight = Fin 80, completed = True, restTime = Fin 0\<rparr>]\<rparr>]\<rparr>)"
proof -
  have h1: "currentWorkout (fst activeApp) = Some activeWorkout"
    by (simp add: activeApp_def)
  have h2: "find (\<lambda>e. exerciseId e = ''squat'') (exercises activeWorkout) = None"
    by (simp add: activeWorkout_def benchEntry_def)
  have h3: "findIndex (\<lambda>e. exerciseId e = ''bench-press'') (exercises activeWorkout) = Some 0"
    by (simp add: activeWorkout_def benchEntry_def)
  have ex: "exercises activeWorkout = [benchEntry]" by (simp add: activeWorkout_def)
  have ap: "activeApp = (fst activeApp, snd activeApp)" by simp
  note t = commands_write_through_without_rollback[OF h1 h2 h3,
      where d = "snd activeApp" and newId = "[]" and generatedName = "[]" and now = 0
        and name = None and okRemove = True and okSet = True
        and setInput = "\<lparr>reps_i = Fin 10, weight_i = Fin 80, completed_i = None\<rparr>"]
  have f: "addSetToExercise ''bench-press''
        \<lparr>reps_i = Fin 10, weight_i = Fin 80, completed_i = None\<rparr> False activeApp
      = ((fst activeApp)\<lparr>currentWorkout := Some (activeWorkout\<lparr>exercises := [benchEntry\<lparr>sets :=
          [\<lparr>reps = Fin 10, weight = Fin 80, completed = True, restTime = Fin 0\<rparr>]\<rparr>]\<rparr>),
          error := Some ''Failed to add set to exercise''\<rparr>, snd activeApp)"
    using t[where ok = False]
    by (simp add: ex benchEntry_def)
  have g: "addSetToExercise ''bench-press''
        \<lparr>reps_i = Fin 10, weight_i = Fin 80, completed_i = None\<rparr> True activeApp
      = ((fst activeApp)\<lparr>currentWorkout := Some (activeWorkout\<lparr>exercises := [benchEntry\<lparr>sets :=
          [\<lparr>reps = Fin 10, weight = Fin 80, completed = True, restTime = Fin 0\<rparr>]\<rparr>]\<rparr>),
          error := error (fst activeApp)\<rparr>,
         (snd activeApp)\<lparr>stored_currentWorkout := Some (activeWorkout\<lparr>exercises :=
          [benchEntry\<lparr>sets :=
          [\<lparr>reps = Fin 10, weight = Fin 80, completed = True, restTime = Fin 0\<rparr>]\<rparr>]\<rparr>)\<rparr>)"
    using t[where ok = True]
    by (simp add: ex benchEntry_def)
  show ?thesis
    by (intro conjI h1 h2 h3) (simp_all add: f g)
qed


text \<open>
  C6. \<open>completeWorkout\<close> stores the clock reading as end time without comparing it
  with the start time. The active workout started at time 1000; completed when the
  clock reads 1000, it enters the history with an end time equal to its start time,
  the slot is cleared and no error is reported.
\<close>

theorem completeWorkout_end_not_after_start:
  "workoutHistory (fst (completeWorkout 1000 True True activeApp))
     = [activeWorkout\<lparr>endTime := Some 1000\<rparr>]
   \<and> startTime activeWorkout = 1000
   \<and> currentWorkout (fst (completeWorkout 1000 True True activeApp)) = None
   \<and> error (fst (completeWorkout 1000 True True activeApp)) = None"
  by (simp add: activeApp_def activeWorkout_def benchEntry_def completeWorkout_def
      completeWorkout_try_def Let_def)

section \<open>History order\<close>

lemma js_slice_sorted_wrt: "sorted_wrt P xs \<Longrightarrow> sorted_wrt P (js_slice xs start fin)"
  by (simp add: js_slice_def Let_def sorted_wrt_take sorted_wrt_drop)

lemma sort_desc_sorted:
  "sorted_wrt (\<lambda>a b. startTime b \<le> startTime a) (sort_key (\<lambda>w. - startTime w) stored)"
proof -
  have "sorted (map (\<lambda>w. - startTime w) (sort_key (\<lambda>w. - startTime w) stored))"
    by (rule sorted_sort_key)
  then show ?thesis by (simp add: sorted_wrt_map)
qed

lemma getWorkoutHistory_sorted:
  "sorted_wrt (\<lambda>a b. startTime b \<le> startTime a) (getWorkoutHistory historyData limit offset)"
  by (cases historyData)
    (simp_all add: getWorkoutHistory_def Let_def js_slice_sorted_wrt sort_desc_sorted)

lemma js_slice_all: "js_slice xs 0 None = xs"
  by (simp add: js_slice_def Let_def)

lemma getWorkoutHistory_all:
  "getWorkoutHistory (Some stored) None None = sort_key (\<lambda>w. - startTime w) stored"
  by (simp add: getWorkoutHistory_def Let_def js_slice_all)

text \<open>
  C10. Completing the active workout puts the completed workout at the front of the
  history, in memory and in the history written to the storage; and for every stored
  history, limit and offset, \<open>getWorkoutHistory\<close> returns workouts in descending order
  of start time, all of the stored ones when no limit and offset are given.
\<close>

theorem history_newest_first:
  assumes "currentWorkout s = Some cw" and "exercises cw \<noteq> []"
  shows "workoutHistory (fst (completeWorkout now okRemove okSet (s, d)))
           = cw\<lparr>endTime := Some now\<rparr> # workoutHistory s
       \<and> stored_workoutHistory (snd (completeWorkout now okRemove True (s, d)))
           = Some (cw\<lparr>endTime := Some now\<rparr> # workoutHistory s)
       \<and> sorted_wrt (\<lambda>a b. startTime b \<le> startTime a)
           (getWorkoutHistory historyData limit offset)
       \<and> mset (getWorkoutHistory (Some stored) None None) = mset stored"
  using assms
  by (simp add: completeWorkout_ok getWorkoutHistory_sorted getWorkoutHistory_all)

theorem history_newest_first_witness:
  "currentWorkout (fst activeApp) = Some activeWorkout
   \<and> exercises activeWorkout \<noteq> []
   \<and> workoutHistory (fst (completeWorkout 5000 True True activeApp))
       = activeWorkout\<lparr>endTime := Some 5000\<rparr> # workoutHistory (fst activeApp)
   \<and> stored_workoutHistory (snd (completeWorkout 5000 True True activeApp))
       = Some (activeWorkout\<lparr>endTime := Some 5000\<rparr> # workoutHistory (fst activeApp))
   \<and> sorted_wrt (\<lambda>a b. startTime b \<le> startTime a)
       (getWorkoutHistory (Some [activeWorkout\<lparr>endTime := Some 5000\<rparr>,
                                 activeWorkout\<lparr>startTime := 7000, endTime := Some 8000\<rparr>])
          (Some 1) (Some 0))
   \<and> getWorkoutHistory (Some [activeWorkout\<lparr>endTime := Some 5000\<rparr>,
                               activeWorkout\<lparr>startTime := 7000, endTime := Some 8000\<rparr>])
        None None
       = [activeWorkout\<lparr>startTime := 7000, endTime := Some 8000\<rparr>,
          activeWorkout\<lparr>endTime := Some 5000\<rparr>]"
proof -
  have h1: "currentWorkout (fst activeApp) = Some activeWorkout"
    by (simp add: activeApp_def)
  have h2: "exercises activeWorkout \<noteq> []"
    by (simp add: activeWorkout_def)
  note t = history_newest_first[OF h1 h2, where d = "snd activeApp" and now = 5000
      and okRemove = True and okSet = True
      and historyData = "Some [activeWorkout\<lparr>endTime := Some 5000\<rparr>,
                               activeWorkout\<lparr>startTime := 7000, endTime := Some 8000\<rparr>]"
      and limit = "Some 1" and offset = "Some 0" and stored = "[]"]
  have e: "getWorkoutHistory (Some [activeWorkout\<lparr>endTime := Some 5000\<rparr>,
                               activeWorkout\<lparr>startTime := 7000, endTime := Some 8000\<rparr>])
        None None
       = [activeWorkout\<lparr>startTime := 7000, endTime := Some 8000\<rparr>,
          activeWorkout\<lparr>endTime := Some 5000\<rparr>]"
    by (simp add: getWorkoutHistory_all activeWorkout_def)
  show ?thesis
    using t by (intro conjI h1 h2 e) simp_all
qed


section \<open>One-rep-max\<close>

text \<open>
  \<open>SetModel.getEstimatedOneRepMax\<close> on a finite number of repetitions: the weight for
  one repetition and beyond 36 repetitions, the Brzycki value between.
\<close>

lemma getEstimatedOneRepMax_cases:
  "getEstimatedOneRepMax \<lparr>reps = Fin r, weight = w, completed = c, restTime = t\<rparr>
     = (if r = 1 then w else if 36 < r then w
        else js_mul w (js_div (Fin 36) (js_sub (Fin 37) (Fin r))))"
  by (simp add: getEstimatedOneRepMax_def js_eq_def js_gt_def)

text \<open>
  For 10 repetitions at weight 80 it is the double \<open>106.66666666666666\<close>, the rounded
  product of 80 and the rounded quotient of 36 by 27.
\<close>

lemma getEstimatedOneRepMax_example:
  "getEstimatedOneRepMax \<lparr>reps = Fin 10, weight = Fin 80, completed = True, restTime = Fin 0\<rparr>
     = Fin (3752999689475413 / 35184372088832)"
  by code_simp

text \<open>Up to 36 repetitions the expression of the progress service is the same value.\<close>

lemma brzycki_agrees:
  "\<not> js_gt (reps s) (Fin 36) \<Longrightarrow> brzycki s = getEstimatedOneRepMax s"
  by (simp add: brzycki_def getEstimatedOneRepMax_def)

text \<open>At 37 repetitions the expression divides by zero.\<close>

lemma brzycki_at_37:
  "brzycki \<lparr>reps = Fin 37, weight = Fin 80, completed = True, restTime = Fin 0\<rparr> = PInf
   \<and> brzycki \<lparr>reps = Fin 37, weight = Fin 0, completed = True, restTime = Fin 0\<rparr> = NaN"
  by code_simp

text \<open>
  C2. \<open>getExerciseProgress\<close> computes the one-rep-max of a set without the bound at 36
  repetitions. For a history of one completed workout with the single set of 38
  repetitions at weight 100, it reports the one-rep-max 0, where
  \<open>getEstimatedOneRepMax\<close> gives the weight, 100.
\<close>

theorem getExerciseProgress_beyond_36_reps:
  "getExerciseProgress catalog (Some [highRepWorkout]) ''bench-press''
       \<lparr>startDate = 0, endDate = 5000\<rparr>
     = Inr \<lparr>exerciseId_m = ''bench-press'', exerciseName_m = ''Bench Press'',
            oneRepMax_m = Fin 0, totalVolume = Fin 3800, averageWeight = Fin 100,
            totalSets = Fin 1, totalReps = Fin 38, progressPercentage = Fin 0\<rparr>
   \<and> getEstimatedOneRepMax \<lparr>reps = Fin 38, weight = Fin 100, completed = True,
         restTime = Fin 0\<rparr> = Fin 100"
  by code_simp

section \<open>Missing data\<close>

lemma getExerciseProgress_unknown:
  "lookup eid = None \<Longrightarrow>
   getExerciseProgress lookup historyData eid timeRange
     = Inl (''Failed to get exercise progress: '' @ ''Exercise with ID '' @ eid @ '' not found'')"
  by (simp add: getExerciseProgress_def Let_def)

lemma getStrengthProgression_unknown:
  "lookup eid = None \<Longrightarrow>
   getStrengthProgression lookup historyData eid timeRange
     = Inl (''Failed to get strength progression: '' @ ''Exercise with ID '' @ eid @
            '' not found'')"
  by (simp add: getStrengthProgression_def Let_def)

lemma getExerciseProgress_no_data:
  assumes "lookup eid = Some ex"
    and "\<forall>w \<in> set (getWorkoutsInTimeRange historyData timeRange).
           \<forall>e \<in> set (exercises w). exerciseId e \<noteq> eid"
  shows "getExerciseProgress lookup historyData eid timeRange
     = Inr \<lparr>exerciseId_m = eid, exerciseName_m = name_x ex,
            oneRepMax_m = Fin 0, totalVolume = Fin 0, averageWeight = Fin 0,
            totalSets = Fin 0, totalReps = Fin 0, progressPercentage = Fin 0\<rparr>"
proof -
  have "filter (\<lambda>workout. list_ex (\<lambda>e. exerciseId e = eid) (exercises workout))
          (getWorkoutsInTimeRange historyData timeRange) = []"
    using assms(2) by (auto simp: filter_empty_conv list_ex_iff)
  then show ?thesis using assms(1) by (simp add: getExerciseProgress_def Let_def)
qed

lemma fold_addWorkoutPoint_none:
  "\<forall>w \<in> set ws. \<forall>e \<in> set (exercises w). exerciseId e \<noteq> eid \<Longrightarrow>
   fold (addWorkoutPoint eid) ws points = points"
proof (induction ws arbitrary: points)
  case Nil
  then show ?case by simp
next
  case (Cons w ws)
  have "find (\<lambda>e. exerciseId e = eid) (exercises w) = None"
    using Cons.prems by (simp add: find_None_iff)
  then have "addWorkoutPoint eid w points = points" by (simp add: addWorkoutPoint_def)
  then show ?case using Cons by simp
qed

lemma getStrengthProgression_no_data:
  assumes "lookup eid = Some ex"
    and "\<forall>w \<in> set (getWorkoutsInTimeRange historyData timeRange).
           \<forall>e \<in> set (exercises w). exerciseId e \<noteq> eid"
  shows "getStrengthProgression lookup historyData eid timeRange
     = Inr \<lparr>exerciseId_s = eid, exerciseName_s = name_x ex, dataPoints = [],
            trendDirection = stable, progressRate = Fin 0\<rparr>"
  using assms(1) fold_addWorkoutPoint_none[OF assms(2)]
  by (simp add: getStrengthProgression_def Let_def calculateTrendDirection_def
      calculateProgressRate_def)

lemma set_map_set: "set (map_set k v m) \<subseteq> insert (k, v) (set m)"
  by (induction m) auto

lemma ball_map_set:
  "\<forall>p \<in> set m. Q p \<Longrightarrow> Q (k, v) \<Longrightarrow> \<forall>p \<in> set (map_set k v m). Q p"
  using set_map_set[of k v m] by auto

text \<open>A property kept by every step of a loop holds after the loop.\<close>

lemma fold_invariant:
  "P a \<Longrightarrow> (\<And>x b. x \<in> set xs \<Longrightarrow> P b \<Longrightarrow> P (f x b)) \<Longrightarrow> P (fold f xs a)"
  by (induction xs arbitrary: a) auto

lemma namesOk_scanSet:
  assumes "namesOk lookup m"
  shows "namesOk lookup (scanSet lookup w eid cur s m)"
proof (cases "recordBeaten cur s")
  case True
  have "\<forall>p \<in> set (map_set eid (updatedRecord lookup w eid cur s) m).
          exerciseId_r (snd p) = fst p \<and> exerciseName_r (snd p) = displayName lookup (fst p)"
    using assms
    by (intro ball_map_set) (simp_all add: namesOk_def updatedRecord_def displayName_def)
  then show ?thesis using True by (simp add: namesOk_def scanSet_def)
next
  case False
  then show ?thesis using assms by (simp add: scanSet_def)
qed

lemma namesOk_scanExercise:
  "namesOk lookup m \<Longrightarrow> namesOk lookup (scanExercise lookup w ex m)"
  unfolding scanExercise_def Let_def by (rule fold_invariant) (auto intro: namesOk_scanSet)

lemma namesOk_scanWorkout:
  "namesOk lookup m \<Longrightarrow> namesOk lookup (scanWorkout lookup w m)"
  unfolding scanWorkout_def by (rule fold_invariant) (auto intro: namesOk_scanExercise)

lemma namesOk_scanWorkouts:
  "namesOk lookup m \<Longrightarrow> namesOk lookup (scanWorkouts lookup ws m)"
  unfolding scanWorkouts_def by (rule fold_invariant) (auto intro: namesOk_scanWorkout)

lemma getPersonalRecords_names:
  assumes "r \<in> set (getPersonalRecords lookup historyData)"
  shows "exerciseName_r r = displayName lookup (exerciseId_r r)"
proof -
  have "namesOk lookup (scanWorkouts lookup (getWorkoutHistory historyData None None) [])"
    by (rule namesOk_scanWorkouts) (simp add: namesOk_def)
  then show ?thesis using assms by (auto simp: getPersonalRecords_def namesOk_def)
qed

text \<open>
  For an exercise id that the catalog knows and that no completed workout in the time
  range contains, \<open>getExerciseProgress\<close> returns the metrics with every number zero and
  \<open>getStrengthProgression\<close> the empty progression, stable, with rate zero. A record of
  \<open>getPersonalRecords\<close> for an exercise the catalog does not know carries the id as its
  name.
\<close>

lemma analytics_on_known_exercise_without_data:
  assumes "lookup eid = Some ex"
    and "\<forall>w \<in> set (getWorkoutsInTimeRange historyData timeRange).
           \<forall>e \<in> set (exercises w). exerciseId e \<noteq> eid"
  shows "getExerciseProgress lookup historyData eid timeRange
          = Inr \<lparr>exerciseId_m = eid, exerciseName_m = name_x ex,
                 oneRepMax_m = Fin 0, totalVolume = Fin 0, averageWeight = Fin 0,
                 totalSets = Fin 0, totalReps = Fin 0, progressPercentage = Fin 0\<rparr>
       \<and> getStrengthProgression lookup historyData eid timeRange
          = Inr \<lparr>exerciseId_s = eid, exerciseName_s = name_x ex, dataPoints = [],
                 trendDirection = stable, progressRate = Fin 0\<rparr>"
  using getExerciseProgress_no_data[where lookup = lookup and eid = eid, OF assms(1) assms(2)]
    getStrengthProgression_no_data[where lookup = lookup and eid = eid, OF assms(1) assms(2)]
  by simp

lemma getPersonalRecords_raw_id:
  assumes "r \<in> set (getPersonalRecords lookup historyData)"
    and "lookup (exerciseId_r r) = None"
  shows "exerciseName_r r = exerciseId_r r"
  using getPersonalRecords_names[OF assms(1)] assms(2) by (simp add: displayName_def)

text \<open>
  C8. For an exercise id the catalog does not know, \<open>getExerciseProgress\<close> and
  \<open>getStrengthProgression\<close> throw instead of returning zero values. With the id
  \<open>non-existent-exercise\<close> and no stored history, both return the error that names the
  id.
\<close>

theorem analytics_throw_on_unknown_exercise:
  "catalog ''non-existent-exercise'' = None
   \<and> getExerciseProgress catalog None ''non-existent-exercise''
       \<lparr>startDate = 0, endDate = 5000\<rparr>
     = Inl ''Failed to get exercise progress: Exercise with ID non-existent-exercise not found''
   \<and> getStrengthProgression catalog None ''non-existent-exercise''
       \<lparr>startDate = 0, endDate = 5000\<rparr>
     = Inl (''Failed to get strength progression: '' @
            ''Exercise with ID non-existent-exercise not found'')"
  by (simp add: catalog_def getExerciseProgress_def getStrengthProgression_def Let_def)

section \<open>The clock\<close>





section \<open>Personal records\<close>

subsection \<open>The order of numbers\<close>

text \<open>
  On numbers other than \<open>NaN\<close> the comparison \<open><=\<close> is a total order, and \<open>Math.max\<close>
  is its least upper bound.
\<close>

lemma js_le_NaN: "js_le a b \<Longrightarrow> a \<noteq> NaN \<and> b \<noteq> NaN"
  by (cases a; cases b) (auto simp: js_le_def js_eq_def)

lemma js_le_refl: "a \<noteq> NaN \<Longrightarrow> js_le a a"
  by (cases a) (auto simp: js_le_def js_eq_def)

lemma js_le_trans: "js_le a b \<Longrightarrow> js_le b c \<Longrightarrow> js_le a c"
  by (cases a; cases b; cases c) (auto simp: js_le_def js_eq_def)

lemma js_max_ge1: "a \<noteq> NaN \<Longrightarrow> b \<noteq> NaN \<Longrightarrow> js_le a (js_max a b)"
  by (cases a; cases b) (auto simp: js_le_def js_eq_def js_max_def)

lemma js_max_mono: "js_le a a' \<Longrightarrow> b \<noteq> NaN \<Longrightarrow> js_le (js_max a b) (js_max a' b)"
  by (cases a; cases a'; cases b) (auto simp: js_le_def js_eq_def js_max_def)

lemma js_max_lub: "js_le a c \<Longrightarrow> js_le b c \<Longrightarrow> js_le (js_max a b) c"
  by (cases a; cases b; cases c) (auto simp: js_le_def js_eq_def js_max_def)

lemma js_not_gt_le: "a \<noteq> NaN \<Longrightarrow> b \<noteq> NaN \<Longrightarrow> \<not> js_gt a b \<Longrightarrow> js_le a b"
  by (cases a; cases b) (auto simp: js_le_def js_eq_def js_gt_def)

lemma js_gt_mono: "js_gt v b' \<Longrightarrow> js_le b b' \<Longrightarrow> js_gt v b"
  by (cases v; cases b; cases b') (auto simp: js_le_def js_eq_def js_gt_def)

lemma js_or_0: "a \<noteq> NaN \<Longrightarrow> js_or a (Fin 0) = a"
  by (cases a) (auto simp: js_or_def js_truthy_def)

subsection \<open>The order of records\<close>

lemma record_le_trans: "record_le a b \<Longrightarrow> record_le b c \<Longrightarrow> record_le a c"
  unfolding record_le_def by (blast intro: js_le_trans)

lemma wf_record_le: "wf_record a \<Longrightarrow> record_le a b \<Longrightarrow> wf_record b"
  unfolding record_le_def wf_record_def by (blast intro: js_le_trans)

lemma wf_record_refl: "wf_record a \<Longrightarrow> record_le a a"
  unfolding record_le_def wf_record_def by (blast intro: js_le_refl dest: js_le_NaN)

lemma ropt_le_trans: "ropt_le a b \<Longrightarrow> ropt_le b c \<Longrightarrow> ropt_le a c"
  by (cases a; cases b; cases c) (auto intro: record_le_trans wf_record_le)

lemma ropt_le_right_refl: "ropt_le a b \<Longrightarrow> ropt_le b b"
  by (cases a; cases b) (auto intro: wf_record_le wf_record_refl)

lemma fieldOr0_Some: "f r \<noteq> NaN \<Longrightarrow> fieldOr0 (Some r) f = f r"
  by (simp add: fieldOr0_def js_or_0)

lemma js_or_0_mono: "js_le a b \<Longrightarrow> js_le (js_or a (Fin 0)) (js_or b (Fin 0))"
  by (cases a; cases b) (auto simp: js_or_def js_truthy_def js_le_def js_eq_def)

lemma js_or_0_nonneg: "js_le (Fin 0) a \<Longrightarrow> js_le (Fin 0) (js_or a (Fin 0))"
  by (cases a) (auto simp: js_or_def js_truthy_def js_le_def js_eq_def)

lemma fieldOr0_mono:
  assumes "ropt_le c c'"
  shows "js_le (fieldOr0 c maxWeight) (fieldOr0 c' maxWeight)"
    and "js_le (fieldOr0 c maxReps) (fieldOr0 c' maxReps)"
    and "js_le (fieldOr0 c maxVolume) (fieldOr0 c' maxVolume)"
    and "js_le (fieldOr0 c oneRepMax_r) (fieldOr0 c' oneRepMax_r)"
proof -
  show "js_le (fieldOr0 c maxWeight) (fieldOr0 c' maxWeight)"
    using assms by (cases c; cases c')
      (auto simp: fieldOr0_def wf_record_def record_le_def js_le_refl
            intro: js_or_0_mono js_or_0_nonneg)
  show "js_le (fieldOr0 c maxReps) (fieldOr0 c' maxReps)"
    using assms by (cases c; cases c')
      (auto simp: fieldOr0_def wf_record_def record_le_def js_le_refl
            intro: js_or_0_mono js_or_0_nonneg)
  show "js_le (fieldOr0 c maxVolume) (fieldOr0 c' maxVolume)"
    using assms by (cases c; cases c')
      (auto simp: fieldOr0_def wf_record_def record_le_def js_le_refl
            intro: js_or_0_mono js_or_0_nonneg)
  show "js_le (fieldOr0 c oneRepMax_r) (fieldOr0 c' oneRepMax_r)"
    using assms by (cases c; cases c')
      (auto simp: fieldOr0_def wf_record_def record_le_def js_le_refl
            intro: js_or_0_mono js_or_0_nonneg)
qed

lemma fieldOr0_nonneg:
  assumes "ropt_le c c"
  shows "js_le (Fin 0) (fieldOr0 c maxWeight)"
    and "js_le (Fin 0) (fieldOr0 c maxReps)"
    and "js_le (Fin 0) (fieldOr0 c maxVolume)"
    and "js_le (Fin 0) (fieldOr0 c oneRepMax_r)"
  using fieldOr0_mono[of None c] assms by (cases c; simp add: fieldOr0_def)+

text \<open>
  The record a set writes grows with the record it was compared with, is at least
  that record, has no negative value, and, when the set beats no dimension of a
  record, stays below it.
\<close>

lemma updatedRecord_mono:
  assumes "ropt_le c c'" and "dims_defined s"
  shows "record_le (updatedRecord l w e c s) (updatedRecord l w e c' s)"
  using fieldOr0_mono[OF assms(1)] assms(2)
  by (simp add: record_le_def updatedRecord_def dims_defined_def js_max_mono)

lemma updatedRecord_wf:
  assumes "ropt_le c c" and "dims_defined s"
  shows "wf_record (updatedRecord l w e c s)"
proof -
  have "js_le (Fin 0) (js_max x v)" if "js_le (Fin 0) x" and "v \<noteq> NaN" for x v
    using that js_max_ge1[of x v] js_le_NaN[of "Fin 0" x] by (blast intro: js_le_trans)
  then show ?thesis using fieldOr0_nonneg[OF assms(1)] assms(2)
    by (simp add: wf_record_def updatedRecord_def dims_defined_def)
qed

lemma updatedRecord_raise:
  assumes "ropt_le c c" and "dims_defined s"
  shows "ropt_le c (Some (updatedRecord l w e c s))"
proof (cases c)
  case None
  then show ?thesis using updatedRecord_wf[OF assms] by simp
next
  case (Some b)
  then have wb: "wf_record b" using assms(1) by simp
  then have nn: "maxWeight b \<noteq> NaN" "maxReps b \<noteq> NaN" "maxVolume b \<noteq> NaN" "oneRepMax_r b \<noteq> NaN"
    unfolding wf_record_def by (blast dest: js_le_NaN)+
  have "record_le b (updatedRecord l w e (Some b) s)"
    using nn assms(2)
    by (simp add: record_le_def updatedRecord_def dims_defined_def fieldOr0_Some js_max_ge1)
  then show ?thesis using Some wb by simp
qed

lemma recordBeaten_mono:
  assumes "ropt_le c c'" and "recordBeaten c' s"
  shows "recordBeaten c s"
proof (cases c)
  case None
  then show ?thesis by (simp add: recordBeaten_def)
next
  case (Some a)
  then obtain b where c': "c' = Some b" using assms(1) by (cases c') auto
  then have le: "record_le a b" using assms(1) Some by simp
  show ?thesis using assms(2) le unfolding Some c' recordBeaten_def record_le_def
    by (auto intro: js_gt_mono)
qed

lemma updatedRecord_below:
  assumes "ropt_le c (Some b)" and "\<not> recordBeaten (Some b) s" and "dims_defined s"
  shows "record_le (updatedRecord l w e c s) b"
proof -
  have wb: "wf_record b" using assms(1) ropt_le_right_refl[OF assms(1)] by simp
  then have nn: "maxWeight b \<noteq> NaN" "maxReps b \<noteq> NaN" "maxVolume b \<noteq> NaN" "oneRepMax_r b \<noteq> NaN"
    unfolding wf_record_def by (blast dest: js_le_NaN)+
  have m: "js_le (fieldOr0 c maxWeight) (maxWeight b)" "js_le (fieldOr0 c maxReps) (maxReps b)"
     "js_le (fieldOr0 c maxVolume) (maxVolume b)" "js_le (fieldOr0 c oneRepMax_r) (oneRepMax_r b)"
    using fieldOr0_mono[OF assms(1)] nn by (simp_all add: fieldOr0_Some)
  have v: "js_le (weight s) (maxWeight b)" "js_le (reps s) (maxReps b)"
     "js_le (js_mul (reps s) (weight s)) (maxVolume b)" "js_le (brzycki s) (oneRepMax_r b)"
    using assms(2,3) nn by (simp_all add: recordBeaten_def dims_defined_def js_not_gt_le)
  show ?thesis using m v by (simp add: record_le_def updatedRecord_def js_max_lub)
qed

subsection \<open>The scan of one exercise entry\<close>

lemma ropt_le_left_refl: "ropt_le a b \<Longrightarrow> ropt_le a a"
  by (cases a; cases b) (auto intro: wf_record_refl)

lemma map_of_map_set: "map_of (map_set k v m) = (map_of m)(k \<mapsto> v)"
  by (induction m) (auto simp: fun_eq_iff)

lemma map_of_fold_scanSet:
  "map_of (fold (scanSet l w e cur) ss m) k
     = (if k = e then entryFold l w e cur ss (map_of m e) else map_of m k)"
proof (induction ss arbitrary: m)
  case Nil
  then show ?case by (simp add: entryFold_def)
next
  case (Cons s ss)
  have "map_of (fold (scanSet l w e cur) (s # ss) m) k
          = map_of (fold (scanSet l w e cur) ss (scanSet l w e cur s m)) k"
    by simp
  also have "\<dots> = (if k = e then entryFold l w e cur ss (map_of (scanSet l w e cur s m) e)
                     else map_of (scanSet l w e cur s m) k)"
    by (rule Cons.IH)
  also have "\<dots> = (if k = e then entryFold l w e cur (s # ss) (map_of m e) else map_of m k)"
    by (simp add: entryFold_def scanSet_def map_of_map_set)
  finally show ?case .
qed

text \<open>
  Two runs of the loop over the same sets, the second from a greater record: the
  second run ends with the greater entry, and with an entry at least its
  \<open>currentRecord\<close>. The entry of the first run may fall below what an earlier set of the
  same loop wrote, but never below what the second run holds.
\<close>

lemma entryFold_mono:
  assumes "ropt_le cur cur'" and "ropt_le acc acc'" and "ropt_le cur' acc'"
    and "\<forall>s \<in> set ss. dims_defined s"
  shows "ropt_le (entryFold l w e cur ss acc) (entryFold l w e cur' ss acc')
       \<and> ropt_le cur' (entryFold l w e cur' ss acc')"
  using assms(2,3,4)
proof (induction ss arbitrary: acc acc')
  case Nil
  then show ?case by (simp add: entryFold_def)
next
  case (Cons s ss)
  have ds: "dims_defined s" and dss: "\<forall>s \<in> set ss. dims_defined s" using Cons.prems(3) by auto
  have step: "entryFold l w e c (s # ss) a
      = entryFold l w e c ss (if recordBeaten c s then Some (updatedRecord l w e c s) else a)"
    for c a by (simp add: entryFold_def)
  show ?case
  proof (cases "recordBeaten cur' s")
    case True
    then have b: "recordBeaten cur s" using recordBeaten_mono[OF assms(1)] by blast
    have 1: "ropt_le (Some (updatedRecord l w e cur s)) (Some (updatedRecord l w e cur' s))"
      using updatedRecord_wf[OF ropt_le_left_refl[OF assms(1)] ds]
        updatedRecord_mono[OF assms(1) ds] by simp
    have 2: "ropt_le cur' (Some (updatedRecord l w e cur' s))"
      by (rule updatedRecord_raise[OF ropt_le_right_refl[OF assms(1)] ds])
    show ?thesis using Cons.IH[OF 1 2 dss] True b by (simp add: step)
  next
    case False
    then obtain b where c': "cur' = Some b" by (cases cur') (auto simp: recordBeaten_def)
    show ?thesis
    proof (cases "recordBeaten cur s")
      case True
      obtain c where a': "acc' = Some c" and bc: "record_le b c"
        using Cons.prems(2) c' by (cases acc') auto
      have "record_le (updatedRecord l w e cur s) b"
        using updatedRecord_below[of cur b s] assms(1) False ds c' by simp
      then have "record_le (updatedRecord l w e cur s) c" using bc by (rule record_le_trans)
      then have 1: "ropt_le (Some (updatedRecord l w e cur s)) acc'"
        using updatedRecord_wf[OF ropt_le_left_refl[OF assms(1)] ds] a' by simp
      show ?thesis using Cons.IH[OF 1 Cons.prems(2) dss] True False by (simp add: step)
    next
      case nb: False
      show ?thesis using Cons.IH[OF Cons.prems(1,2) dss] False nb by (simp add: step)
    qed
  qed
qed

lemma map_of_scanExercise:
  "map_of (scanExercise l w ex m) k
     = (if k = exerciseId ex
        then entryFold l w (exerciseId ex) (map_of m (exerciseId ex)) (sets ex)
               (map_of m (exerciseId ex))
        else map_of m k)"
  by (simp add: scanExercise_def Let_def map_of_fold_scanSet)

lemma scanExercise_mono:
  assumes "records_le m m'" and "\<forall>s \<in> set (sets ex). dims_defined s"
  shows "records_le (scanExercise l w ex m) (scanExercise l w ex m')"
  unfolding records_le_def
proof
  fix k
  have c: "ropt_le (map_of m (exerciseId ex)) (map_of m' (exerciseId ex))"
    using assms(1) by (simp add: records_le_def)
  show "ropt_le (map_of (scanExercise l w ex m) k) (map_of (scanExercise l w ex m') k)"
  proof (cases "k = exerciseId ex")
    case True
    then show ?thesis
      using entryFold_mono[OF c c ropt_le_right_refl[OF c] assms(2)]
      by (simp add: map_of_scanExercise)
  next
    case False
    then show ?thesis using assms(1) by (simp add: map_of_scanExercise records_le_def)
  qed
qed

lemma scanExercise_raise:
  assumes "records_le m m" and "\<forall>s \<in> set (sets ex). dims_defined s"
  shows "records_le m (scanExercise l w ex m)"
  unfolding records_le_def
proof
  fix k
  have c: "ropt_le (map_of m (exerciseId ex)) (map_of m (exerciseId ex))"
    using assms(1) by (simp add: records_le_def)
  show "ropt_le (map_of m k) (map_of (scanExercise l w ex m) k)"
  proof (cases "k = exerciseId ex")
    case True
    then show ?thesis
      using entryFold_mono[OF c c c assms(2)]
      by (simp add: map_of_scanExercise)
  next
    case False
    then show ?thesis using assms(1) by (simp add: map_of_scanExercise records_le_def)
  qed
qed

subsection \<open>The scan of the history\<close>

lemma records_le_trans: "records_le a b \<Longrightarrow> records_le b c \<Longrightarrow> records_le a c"
  unfolding records_le_def by (blast intro: ropt_le_trans)

lemma fold_related:
  "R a b \<Longrightarrow> (\<And>x a b. x \<in> set xs \<Longrightarrow> R a b \<Longrightarrow> R (f x a) (f x b)) \<Longrightarrow>
   R (fold f xs a) (fold f xs b)"
  by (induction xs arbitrary: a b) auto

lemma fold_raise:
  assumes "R a a"
    and mono: "\<And>x a b. x \<in> set xs \<Longrightarrow> R a b \<Longrightarrow> R (f x a) (f x b)"
    and raise: "\<And>x a. x \<in> set xs \<Longrightarrow> R a a \<Longrightarrow> R a (f x a)"
    and trans: "\<And>a b c. R a b \<Longrightarrow> R b c \<Longrightarrow> R a c"
  shows "R a (fold f xs a)"
  using assms(1) mono raise
proof (induction xs arbitrary: a)
  case Nil
  then show ?case by simp
next
  case (Cons x xs)
  have 1: "R a (f x a)" using Cons.prems(1,3) by simp
  have 2: "R (f x a) (f x a)" using Cons.prems(1,2) by simp
  have "R (f x a) (fold f xs (f x a))"
    using Cons.prems(2,3) by (intro Cons.IH[OF 2]) auto
  then show ?case using 1 trans by auto
qed

lemma scanWorkout_mono:
  assumes "records_le m m'" and "workout_defined w"
  shows "records_le (scanWorkout l w m) (scanWorkout l w m')"
  unfolding scanWorkout_def using assms(1)
proof (rule fold_related)
  fix ex a b
  assume "ex \<in> set (exercises w)" and "records_le a b"
  then show "records_le (scanExercise l w ex a) (scanExercise l w ex b)"
    using assms(2) by (intro scanExercise_mono) (auto simp: workout_defined_def)
qed

lemma scanWorkout_raise:
  assumes "records_le m m" and "workout_defined w"
  shows "records_le m (scanWorkout l w m)"
  unfolding scanWorkout_def using assms(1)
proof (rule fold_raise)
  fix ex a b
  assume "ex \<in> set (exercises w)" and "records_le a b"
  then show "records_le (scanExercise l w ex a) (scanExercise l w ex b)"
    using assms(2) by (intro scanExercise_mono) (auto simp: workout_defined_def)
next
  fix ex a
  assume "ex \<in> set (exercises w)" and "records_le a a"
  then show "records_le a (scanExercise l w ex a)"
    using assms(2) by (intro scanExercise_raise) (auto simp: workout_defined_def)
next
  fix a b c
  assume "records_le a b" and "records_le b c"
  then show "records_le a c" by (rule records_le_trans)
qed

lemma scanWorkouts_mono:
  assumes "records_le m m'" and "\<forall>w \<in> set ws. workout_defined w"
  shows "records_le (scanWorkouts l ws m) (scanWorkouts l ws m')"
  unfolding scanWorkouts_def using assms(1)
proof (rule fold_related)
  fix w a b
  assume "w \<in> set ws" and "records_le a b"
  then show "records_le (scanWorkout l w a) (scanWorkout l w b)"
    using assms(2) by (intro scanWorkout_mono) auto
qed

text \<open>A workout more in the scanned list, at any place, lowers no record.\<close>

lemma scanWorkouts_insert:
  assumes "\<forall>x \<in> set (pre @ w # post). workout_defined x"
  shows "records_le (scanWorkouts l (pre @ post) []) (scanWorkouts l (pre @ w # post) [])"
proof -
  let ?M = "scanWorkouts l pre []"
  have e: "records_le [] []" by (simp add: records_le_def)
  have mm: "records_le ?M ?M" using assms by (intro scanWorkouts_mono[OF e]) auto
  have r: "records_le ?M (scanWorkout l w ?M)" using assms by (intro scanWorkout_raise[OF mm]) auto
  have "records_le (scanWorkouts l post ?M) (scanWorkouts l post (scanWorkout l w ?M))"
    using assms by (intro scanWorkouts_mono[OF r]) auto
  then show ?thesis by (simp add: scanWorkouts_def)
qed

text \<open>Sorting the stored list with one workout more puts that workout somewhere in the
  sorted list of the others.\<close>

lemma insort_key_split:
  "\<exists>pre post. xs = pre @ post \<and> insort_key f x xs = pre @ x # post"
proof (induction xs)
  case Nil
  then show ?case by simp
next
  case (Cons y ys)
  show ?case
  proof (cases "f x \<le> f y")
    case True
    then have "y # ys = [] @ (y # ys) \<and> insort_key f x (y # ys) = [] @ x # (y # ys)" by simp
    then show ?thesis by blast
  next
    case False
    obtain pre post where "ys = pre @ post" "insort_key f x ys = pre @ x # post"
      using Cons.IH by blast
    then have "y # ys = (y # pre) @ post \<and> insort_key f x (y # ys) = (y # pre) @ x # post"
      using False by simp
    then show ?thesis by blast
  qed
qed

lemma find_records:
  "\<forall>p \<in> set m. exerciseId_r (snd p) = fst p \<Longrightarrow>
   find (\<lambda>record. exerciseId_r record = eid) (map snd m) = map_of m eid"
  by (induction m) auto

lemma getExercisePersonalRecord_map_of:
  "getExercisePersonalRecord l (Some stored) eid
     = map_of (scanWorkouts l (sort_key (\<lambda>w. - startTime w) stored) []) eid"
proof -
  have "namesOk l (scanWorkouts l (sort_key (\<lambda>w. - startTime w) stored) [])"
    by (rule namesOk_scanWorkouts) (simp add: namesOk_def)
  then show ?thesis
    by (simp add: getExercisePersonalRecord_def getPersonalRecords_def getWorkoutHistory_all
        find_records namesOk_def)
qed

lemma records_monotone:
  assumes "\<forall>x \<in> set (w # stored). workout_defined x"
    and "getExercisePersonalRecord l (Some stored) eid = Some r"
  shows "\<exists>r'. getExercisePersonalRecord l (Some (w # stored)) eid = Some r' \<and> record_le r r'"
proof -
  let ?f = "\<lambda>w. - startTime w"
  obtain pre post where sp: "sort_key ?f stored = pre @ post"
    and ins: "insort_key ?f w (sort_key ?f stored) = pre @ w # post"
    using insort_key_split[of "sort_key ?f stored" ?f w] by blast
  have s': "sort_key ?f (w # stored) = pre @ w # post" using ins by (simp add: sort_key_def)
  have "set (pre @ w # post) = set (w # stored)"
    using s' by (metis set_sort)
  then have d: "\<forall>x \<in> set (pre @ w # post). workout_defined x" using assms(1) by simp
  have g0: "map_of (scanWorkouts l (pre @ post) []) eid = Some r"
    using assms(2) by (simp only: getExercisePersonalRecord_map_of sp)
  have g1: "getExercisePersonalRecord l (Some (w # stored)) eid
              = map_of (scanWorkouts l (pre @ w # post) []) eid"
    by (simp only: getExercisePersonalRecord_map_of s')
  have "ropt_le (map_of (scanWorkouts l (pre @ post) []) eid)
                (map_of (scanWorkouts l (pre @ w # post) []) eid)"
    using scanWorkouts_insert[OF d] by (simp add: records_le_def)
  then have "ropt_le (Some r) (getExercisePersonalRecord l (Some (w # stored)) eid)"
    by (simp only: g0 g1)
  then show ?thesis by (cases "getExercisePersonalRecord l (Some (w # stored)) eid") auto
qed

subsection \<open>Where a record comes from\<close>

lemma originOk_scanSet:
  assumes "originOk W m" and "w \<in> W" and "ex \<in> set (exercises w)" and "s \<in> set (sets ex)"
  shows "originOk W (scanSet l w (exerciseId ex) cur s m)"
proof (cases "recordBeaten cur s")
  case True
  have ne: "sets ex \<noteq> []" using assms(4) by auto
  have "\<exists>wk \<in> W. startTime w = startTime wk \<and>
          (\<exists>e \<in> set (exercises wk). exerciseId e = exerciseId ex \<and> sets e \<noteq> [])"
    using assms(2,3) ne by blast
  then have "\<forall>p \<in> set (map_set (exerciseId ex) (updatedRecord l w (exerciseId ex) cur s) m).
      \<exists>wk \<in> W. achievedDate (snd p) = startTime wk \<and>
        (\<exists>e \<in> set (exercises wk). exerciseId e = fst p \<and> sets e \<noteq> [])"
    using assms(1) by (intro ball_map_set) (simp_all add: originOk_def updatedRecord_def)
  then show ?thesis using True by (simp add: originOk_def scanSet_def)
next
  case False
  then show ?thesis using assms(1) by (simp add: scanSet_def)
qed

lemma originOk_scanExercise:
  "originOk W m \<Longrightarrow> w \<in> W \<Longrightarrow> ex \<in> set (exercises w) \<Longrightarrow>
   originOk W (scanExercise l w ex m)"
  unfolding scanExercise_def Let_def
  by (rule fold_invariant) (auto intro: originOk_scanSet)

lemma originOk_scanWorkout:
  "originOk W m \<Longrightarrow> w \<in> W \<Longrightarrow> originOk W (scanWorkout l w m)"
  unfolding scanWorkout_def by (rule fold_invariant) (auto intro: originOk_scanExercise)

lemma originOk_scanWorkouts:
  "originOk W m \<Longrightarrow> set ws \<subseteq> W \<Longrightarrow> originOk W (scanWorkouts l ws m)"
  unfolding scanWorkouts_def by (rule fold_invariant) (auto intro: originOk_scanWorkout)

lemma entryFold_keeps: "acc \<noteq> None \<Longrightarrow> entryFold l w e cur ss acc \<noteq> None"
  unfolding entryFold_def by (induction ss arbitrary: acc) auto

lemma entryFold_None: "(entryFold l w e None ss None \<noteq> None) = (ss \<noteq> [])"
proof (cases ss)
  case Nil
  then show ?thesis by (simp add: entryFold_def)
next
  case (Cons s ss')
  have "entryFold l w e None (s # ss') None
          = entryFold l w e None ss' (Some (updatedRecord l w e None s))"
    by (simp add: entryFold_def recordBeaten_def)
  then show ?thesis using Cons entryFold_keeps[of "Some (updatedRecord l w e None s)"] by simp
qed

lemma present_scanExercise:
  "(map_of (scanExercise l w ex m) k \<noteq> None)
     = (map_of m k \<noteq> None \<or> (k = exerciseId ex \<and> sets ex \<noteq> []))"
proof (cases "k = exerciseId ex")
  case False
  then show ?thesis by (simp add: map_of_scanExercise)
next
  case True
  show ?thesis
  proof (cases "map_of m k")
    case None
    then show ?thesis using True entryFold_None[of l w k "sets ex"]
      by (simp add: map_of_scanExercise)
  next
    case (Some a)
    then show ?thesis using True entryFold_keeps[of "Some a" l w k "Some a" "sets ex"]
      by (simp add: map_of_scanExercise)
  qed
qed

lemma present_scanWorkout:
  "(map_of (scanWorkout l w m) k \<noteq> None)
     = (map_of m k \<noteq> None \<or> (\<exists>e \<in> set (exercises w). exerciseId e = k \<and> sets e \<noteq> []))"
proof -
  have "(map_of (fold (scanExercise l w) exs m) k \<noteq> None)
     = (map_of m k \<noteq> None \<or> (\<exists>e \<in> set exs. exerciseId e = k \<and> sets e \<noteq> []))" for exs
  proof (induction exs arbitrary: m)
    case Nil
    then show ?case by simp
  next
    case (Cons ex exs)
    show ?case using Cons.IH[of "scanExercise l w ex m"] present_scanExercise[of l w ex m k]
      by auto
  qed
  then show ?thesis by (simp add: scanWorkout_def)
qed

lemma present_scanWorkouts:
  "(map_of (scanWorkouts l ws m) k \<noteq> None)
     = (map_of m k \<noteq> None \<or>
        (\<exists>wk \<in> set ws. \<exists>e \<in> set (exercises wk). exerciseId e = k \<and> sets e \<noteq> []))"
proof -
  have "(map_of (fold (scanWorkout l) ws m) k \<noteq> None)
     = (map_of m k \<noteq> None \<or>
        (\<exists>wk \<in> set ws. \<exists>e \<in> set (exercises wk). exerciseId e = k \<and> sets e \<noteq> []))"
  proof (induction ws arbitrary: m)
    case Nil
    then show ?case by simp
  next
    case (Cons w ws)
    show ?case using Cons.IH[of "scanWorkout l w m"] present_scanWorkout[of l w m k]
      by auto
  qed
  then show ?thesis by (simp add: scanWorkouts_def)
qed

lemma record_present:
  "(getExercisePersonalRecord l (Some stored) eid \<noteq> None)
     = (\<exists>wk \<in> set stored. \<exists>e \<in> set (exercises wk). exerciseId e = eid \<and> sets e \<noteq> [])"
  unfolding getExercisePersonalRecord_map_of
  using present_scanWorkouts[of l "sort_key (\<lambda>w. - startTime w) stored" "[]" eid]
  by (simp del: not_None_eq)

lemma record_origin:
  assumes "getExercisePersonalRecord l (Some stored) eid = Some r"
  shows "exerciseId_r r = eid \<and>
         (\<exists>wk \<in> set stored. achievedDate r = startTime wk \<and>
            (\<exists>e \<in> set (exercises wk). exerciseId e = eid \<and> sets e \<noteq> []))"
proof -
  let ?m = "scanWorkouts l (sort_key (\<lambda>w. - startTime w) stored) []"
  have m: "map_of ?m eid = Some r" using assms by (simp only: getExercisePersonalRecord_map_of)
  then have mem: "(eid, r) \<in> set ?m" by (rule map_of_SomeD)
  have "namesOk l ?m" by (rule namesOk_scanWorkouts) (simp add: namesOk_def)
  then have 1: "exerciseId_r r = eid" using mem by (auto simp: namesOk_def)
  have "originOk (set stored) ?m"
    by (rule originOk_scanWorkouts) (simp_all add: originOk_def)
  then have 2: "\<exists>wk \<in> set stored. achievedDate r = startTime wk \<and>
            (\<exists>e \<in> set (exercises wk). exerciseId e = eid \<and> sets e \<noteq> [])"
    using mem unfolding originOk_def by fastforce
  show ?thesis using 1 2 by simp
qed


text \<open>
  For sets whose four values are numbers: an exercise has a record exactly when some
  stored workout has an entry with a set for it; the record carries the start time of
  such a workout; and a workout put in front of the stored history lowers no value of
  the record.
\<close>

lemma personal_records_over_history:
  assumes "\<forall>wk \<in> set (w # stored). \<forall>e \<in> set (exercises wk). \<forall>s \<in> set (sets e).
             dims_defined s"
  shows "((getExercisePersonalRecord lookup (Some stored) eid \<noteq> None)
            = (\<exists>wk \<in> set stored. \<exists>e \<in> set (exercises wk).
                 exerciseId e = eid \<and> sets e \<noteq> []))
       \<and> (\<forall>r. getExercisePersonalRecord lookup (Some stored) eid = Some r \<longrightarrow>
              exerciseId_r r = eid
            \<and> (\<exists>wk \<in> set stored. achievedDate r = startTime wk \<and>
                 (\<exists>e \<in> set (exercises wk). exerciseId e = eid \<and> sets e \<noteq> []))
            \<and> (\<exists>r'. getExercisePersonalRecord lookup (Some (w # stored)) eid = Some r'
                     \<and> record_le r r'))"
proof (intro conjI allI impI)
  show "(getExercisePersonalRecord lookup (Some stored) eid \<noteq> None)
            = (\<exists>wk \<in> set stored. \<exists>e \<in> set (exercises wk).
                 exerciseId e = eid \<and> sets e \<noteq> [])"
    by (rule record_present)
next
  fix r
  assume r: "getExercisePersonalRecord lookup (Some stored) eid = Some r"
  show "exerciseId_r r = eid"
    using record_origin[OF r] by blast
  show "\<exists>wk \<in> set stored. achievedDate r = startTime wk \<and>
          (\<exists>e \<in> set (exercises wk). exerciseId e = eid \<and> sets e \<noteq> [])"
    using record_origin[OF r] by blast
  have d: "\<forall>x \<in> set (w # stored). workout_defined x"
    using assms unfolding workout_defined_def by blast
  show "\<exists>r'. getExercisePersonalRecord lookup (Some (w # stored)) eid = Some r'
              \<and> record_le r r'"
    by (rule records_monotone[OF d r])
qed

text \<open>
  A record has one date for all its dimensions: with a session at time 2000 that
  lifted 5 x 100 and a session at time 1000 that lifted 10 x 50, the record's greatest
  weight, 100, carries the date 1000 of the session that lifted 50.
\<close>

lemma getPersonalRecords_single_date:
  "getPersonalRecords catalog (Some [lightWorkout, heavyWorkout])
     = [\<lparr>exerciseId_r = ''bench-press'', exerciseName_r = ''Bench Press'',
         maxWeight = Fin 100, maxReps = Fin 10, maxVolume = Fin 500,
         oneRepMax_r = Fin (225 / 2), achievedDate = 1000\<rparr>]"
  by code_simp

text \<open>
  C5. The records are not running maxima, and a longer history can lower one.
  \<open>currentRecord\<close> is read once for an exercise entry and not again after a set has
  replaced the record: of the two sets 1 x 100 and 5 x 80 of one entry, the record
  keeps the values of the second, weight 80 and one-rep-max 90, below the 100 of the
  first. And the one-rep-max of a set of 37 repetitions at weight 0, which
  \<open>SetValidator.validate\<close> accepts, is \<open>NaN\<close>: with the sessions 5 x 100 and 1 x 105 the
  record's one-rep-max is 112.5, and with the session 37 x 0 added between them it is
  105.
\<close>

theorem getPersonalRecords_not_running_maxima:
  "map weight (concat (map sets (exercises twoSetWorkout))) = [Fin 100, Fin 80]
   \<and> getPersonalRecords catalog (Some [twoSetWorkout])
     = [\<lparr>exerciseId_r = ''bench-press'', exerciseName_r = ''Bench Press'',
         maxWeight = Fin 80, maxReps = Fin 5, maxVolume = Fin 400,
         oneRepMax_r = Fin 90, achievedDate = 3000\<rparr>]
   \<and> getExercisePersonalRecord catalog (Some [heavyWorkout, singleWorkout]) ''bench-press''
     = Some \<lparr>exerciseId_r = ''bench-press'', exerciseName_r = ''Bench Press'',
             maxWeight = Fin 105, maxReps = Fin 5, maxVolume = Fin 500,
             oneRepMax_r = Fin (225 / 2), achievedDate = 500\<rparr>
   \<and> getExercisePersonalRecord catalog
         (Some (zeroWeightWorkout # [heavyWorkout, singleWorkout])) ''bench-press''
     = Some \<lparr>exerciseId_r = ''bench-press'', exerciseName_r = ''Bench Press'',
             maxWeight = Fin 105, maxReps = Fin 37, maxVolume = Fin 500,
             oneRepMax_r = Fin 105, achievedDate = 500\<rparr>
   \<and> validate_errors \<lparr>reps_o = Some (Fin 37), weight_o = Some (Fin 0),
         completed_o = Some True, restTime_o = Some (Fin 0)\<rparr> = []"
  by code_simp

end
